theory Spec2Isabelle
  imports Main "HOL-Library.Sublist"
begin

section \<open>Daily automation runner (daily\_agent.py)\<close>

text \<open>
  The script is a linear orchestration of external calls: directory creation, an
  environment lookup, the start of a tool-provider process, one call of a hosted agent
  service and one file write.  The embedding makes every effect explicit:
  \<^item> the world is the file system (directories, text files) and the ordered log of the
    external calls and console prints the script has made;
  \<^item> what the environment answers (import success, clock readings, the credential, the
    outcome of each external call) is an argument of the model;
  \<^item> an exception is a value; \<open>sys.exit(n)\<close>, an uncaught exception and normal completion
    are the three outcomes of the program.

  Boundary of the model.  A Python \<open>str\<close> is a byte string (its UTF-8 text).  The file
  system holds the text written to each file; the bytes on disk are the image of that text
  under the platform's line separator and default encoding (\<open>bytes_on_disk\<close>), since
  \<open>write_text\<close> is called with neither an encoding nor a newline argument.  A print to standard output of text outside ASCII may raise (a console
  whose encoding does not cover the text raises \<open>UnicodeEncodeError\<close>): these are the prints
  of lines 48, 72, 80, 81 and 86, all inside the \<open>try\<close>.  Prints of ASCII text and prints
  to the error stream, which escapes what it cannot encode, do not fail.  Exceptions are
  instances of \<open>Exception\<close> (signals such as \<open>KeyboardInterrupt\<close> are not modelled), and
  the file operations that the tool provider or the hosted agent perform on their own are
  not effects of this script.
\<close>

subsection \<open>Values, exceptions, clock readings\<close>

type_synonym path = string

text \<open>An instance of a Python exception class: the class name and \<open>str(e)\<close>.\<close>

datatype exn = PyException (exc_class: string) (exc_str: string)

text \<open>
  \<open>result.final_output\<close> is untyped in the source; \<open>write_text\<close> accepts a \<open>str\<close> only.
  A value that is not a \<open>str\<close> carries its class name and its \<open>str()\<close> text.
\<close>

datatype pyval = PyStr string | PyOther string string

fun py_str :: "pyval \<Rightarrow> string" where
  "py_str (PyStr s) = s"
| "py_str (PyOther cls s) = s"

record datetime =
  year :: nat
  month :: nat
  day :: nat
  hour :: nat
  minute :: nat
  second :: nat
  microsecond :: nat

definition digit :: "nat \<Rightarrow> char" where
  "digit n = ''0123456789'' ! (n mod 10)"

text \<open>The decimal numeral of \<open>n\<close> on exactly \<open>k\<close> digits, zero-padded (\<open>%02d\<close>, \<open>%04d\<close>, \<open>%06d\<close>).\<close>

fun zpad :: "nat \<Rightarrow> nat \<Rightarrow> string" where
  "zpad 0 n = []"
| "zpad (Suc k) n = zpad k (n div 10) @ [digit n]"

text \<open>\<open>strftime("%Y%m%d_%H%M%S")\<close>, for a year of four digits.\<close>

definition strftime_compact :: "datetime \<Rightarrow> string" where
  "strftime_compact t =
     zpad 4 (year t) @ zpad 2 (month t) @ zpad 2 (day t) @ ''_'' @
     zpad 2 (hour t) @ zpad 2 (minute t) @ zpad 2 (second t)"

text \<open>\<open>strftime('%Y-%m-%d')\<close>.\<close>

definition strftime_ymd :: "datetime \<Rightarrow> string" where
  "strftime_ymd t = zpad 4 (year t) @ ''-'' @ zpad 2 (month t) @ ''-'' @ zpad 2 (day t)"

text \<open>\<open>str(datetime)\<close>: ISO format with a space; the fraction is left out when it is zero.\<close>

definition str_datetime :: "datetime \<Rightarrow> string" where
  "str_datetime t =
     strftime_ymd t @ '' '' @
     zpad 2 (hour t) @ '':'' @ zpad 2 (minute t) @ '':'' @ zpad 2 (second t) @
     (if microsecond t = 0 then [] else ''.'' @ zpad 6 (microsecond t))"

subsection \<open>External objects and the world\<close>

record mcp_server =
  server_name :: string
  command :: string
  args :: "string list"
  client_session_timeout_seconds :: nat

record agent =
  agent_name :: string
  instructions :: string
  model :: string
  mcp_servers :: "mcp_server list"

datatype stream = Stdout | Stderr

text \<open>
  How a \<open>write_text\<close> can fail in the environment: before the file is opened (nothing is
  created), or after it was opened for writing, which leaves the file truncated to the
  given number of leading characters of the data.
\<close>

datatype write_fault = FailBeforeOpen exn | FailAfterOpen exn nat

text \<open>
  The log: every console print and every external call, in program order, each call with
  its outcome (\<open>None\<close>: it returned; \<open>Some e\<close>: it raised \<open>e\<close>; for a write, how it
  failed).  \<open>PrintRaised\<close> is a print that raised instead of printing.  \<open>Traceback\<close> is
  the interpreter's report of an uncaught exception on the error stream.
\<close>

datatype event =
    Print stream string
  | PrintRaised stream string exn
  | Traceback exn
  | Mkdir path "exn option"
  | SetDefaultOpenaiApi string "exn option"
  | ProviderEnter mcp_server "exn option"
  | ProviderExit mcp_server "exn option"
  | RunnerRun agent string nat "exn + pyval"
  | WriteText path pyval "write_fault option"

text \<open>The world: the directories, the text of each file, and the log.\<close>

record world =
  dirs :: "path set"
  files :: "path \<rightharpoonup> string"
  log :: "event list"

text \<open>What the environment answers while the module is loaded (lines 14 to 32).\<close>

record load_env =
  import_ok :: bool
  mkdir_fault :: "exn option"
  clock_load :: datetime
  getenv_OPENAI_API_KEY :: "string option"
  set_api_fault :: "exn option"

text \<open>
  What the environment answers during one call of \<open>run_daily_automation\<close>.
  \<open>print_fault l\<close> is what the print to standard output at source line \<open>l\<close> raises, if
  anything.
\<close>

record run_env =
  print_fault :: "nat \<Rightarrow> exn option"
  clock_start :: datetime
  enter_fault :: "exn option"
  clock_instructions :: datetime
  run_result :: "exn + pyval"
  summary_fault :: "write_fault option"
  exit_fault :: "exn option"
  clock_error :: datetime
  error_fault :: "write_fault option"

text \<open>The module's global constants, once the module has loaded.\<close>

record globals =
  OUTPUT_DIR :: path
  DATE_STR :: string
  API_KEY :: string

datatype 'a outcome = Returned 'a | SysExit nat | Uncaught exn

text \<open>The status the process ends with.\<close>

fun exit_status :: "'a outcome \<Rightarrow> nat" where
  "exit_status (Returned v) = 0"
| "exit_status (SysExit n) = n"
| "exit_status (Uncaught e) = 1"

subsection \<open>Primitive operations\<close>

definition emit :: "event \<Rightarrow> world \<Rightarrow> world" where
  "emit ev w = w\<lparr>log := log w @ [ev]\<rparr>"

definition print_to :: "stream \<Rightarrow> string \<Rightarrow> world \<Rightarrow> world" where
  "print_to st s w = emit (Print st s) w"

text \<open>A print to standard output of text outside ASCII, at the given source line.\<close>

definition print_try :: "run_env \<Rightarrow> nat \<Rightarrow> string \<Rightarrow> world \<Rightarrow> world \<times> exn option" where
  "print_try renv l s w =
     (case print_fault renv l of
        None \<Rightarrow> (emit (Print Stdout s) w, None)
      | Some e \<Rightarrow> (emit (PrintRaised Stdout s e) w, Some e))"

text \<open>\<open>Path.__truediv__\<close> on a relative directory.\<close>

definition path_join :: "path \<Rightarrow> string \<Rightarrow> path" where
  "path_join d name = d @ ''/'' @ name"

text \<open>
  \<open>Path.mkdir(exist_ok=True)\<close>: an existing directory is accepted, a regular file at the
  path raises \<open>FileExistsError\<close>, any other failure of the operating system is the fault
  given by the environment.
\<close>

definition mkdir_exist_ok :: "path \<Rightarrow> exn option \<Rightarrow> world \<Rightarrow> world \<times> exn option" where
  "mkdir_exist_ok p fault w =
     (if p \<in> dirs w then (emit (Mkdir p None) w, None)
      else if p \<in> dom (files w) then
        (let e = PyException ''FileExistsError'' p in (emit (Mkdir p (Some e)) w, Some e))
      else
        (case fault of
           Some e \<Rightarrow> (emit (Mkdir p (Some e)) w, Some e)
         | None \<Rightarrow> (emit (Mkdir p None) (w\<lparr>dirs := insert p (dirs w)\<rparr>), None)))"

text \<open>
  \<open>Path.write_text(data)\<close>: a \<open>TypeError\<close> for data that is not a \<open>str\<close>, raised before
  the file is opened; otherwise the file is opened for writing (created or truncated) and
  the text is written.  The file system of the model keeps the text; what the platform
  makes of it on disk is \<open>bytes_on_disk\<close>.  A text that the default encoding cannot
  represent is a failure after opening.
\<close>

definition write_text :: "path \<Rightarrow> pyval \<Rightarrow> write_fault option \<Rightarrow> world \<Rightarrow> world \<times> exn option" where
  "write_text p data fault w =
     (case data of
        PyOther cls s \<Rightarrow>
          (let e = PyException ''TypeError'' (''data must be str, not '' @ cls)
           in (emit (WriteText p data (Some (FailBeforeOpen e))) w, Some e))
      | PyStr s \<Rightarrow>
          (case fault of
             None \<Rightarrow> (emit (WriteText p data None) (w\<lparr>files := (files w)(p \<mapsto> s)\<rparr>), None)
           | Some (FailBeforeOpen e) \<Rightarrow> (emit (WriteText p data fault) w, Some e)
           | Some (FailAfterOpen e n) \<Rightarrow>
               (emit (WriteText p data fault) (w\<lparr>files := (files w)(p \<mapsto> take n s)\<rparr>),
                Some e)))"

text \<open>
  \<open>write_text\<close> opens the file in text mode with the defaults \<open>encoding=None\<close> and
  \<open>newline=None\<close>: every line feed of the text is written as the platform's line separator
  (\<open>os.linesep\<close>) and the result is encoded in the platform's default encoding.  A text is
  its UTF-8 bytes here, so the UTF-8 encoding is the identity.
\<close>

record platform =
  linesep :: string
  encode :: "string \<Rightarrow> string"

fun translate_newlines :: "string \<Rightarrow> string \<Rightarrow> string" where
  "translate_newlines sep [] = []"
| "translate_newlines sep (c # cs) =
     (if c = CHR 0x0A then sep else [c]) @ translate_newlines sep cs"

definition text_bytes :: "platform \<Rightarrow> string \<Rightarrow> string" where
  "text_bytes pf s = encode pf (translate_newlines (linesep pf) s)"

text \<open>The bytes a file of the model has on disk.\<close>

definition bytes_on_disk :: "platform \<Rightarrow> world \<Rightarrow> path \<Rightarrow> string option" where
  "bytes_on_disk pf w p = map_option (text_bytes pf) (files w p)"

subsection \<open>Module load (lines 14 to 32)\<close>

definition import_hint :: string where
  "import_hint = ''Error: Required packages not installed. Run: pip install openai openai-agents''"

definition missing_key_msg :: string where
  "missing_key_msg = ''Error: OPENAI_API_KEY environment variable not set''"

definition output_dir :: path where
  "output_dir = ''daily-automation-output''"

text \<open>Python's \<open>not API_KEY\<close> for the result of \<open>os.getenv\<close>: \<open>None\<close> and the empty string.\<close>

fun py_not :: "string option \<Rightarrow> bool" where
  "py_not None = True"
| "py_not (Some s) = (s = [])"

definition module_init :: "load_env \<Rightarrow> world \<Rightarrow> world \<times> globals outcome" where
  "module_init env w =
     (if \<not> import_ok env then (print_to Stdout import_hint w, SysExit 1)
      else
        (case mkdir_exist_ok output_dir (mkdir_fault env) w of
           (w1, Some e) \<Rightarrow> (w1, Uncaught e)
         | (w1, None) \<Rightarrow>
             (let date_str = strftime_compact (clock_load env);
                  api_key = getenv_OPENAI_API_KEY env
              in if py_not api_key then (print_to Stdout missing_key_msg w1, SysExit 1)
                 else
                   (case set_api_fault env of
                      Some e \<Rightarrow> (emit (SetDefaultOpenaiApi (the api_key) (Some e)) w1, Uncaught e)
                    | None \<Rightarrow>
                        (emit (SetDefaultOpenaiApi (the api_key) None) w1,
                         Returned \<lparr>OUTPUT_DIR = output_dir, DATE_STR = date_str,
                                   API_KEY = the api_key\<rparr>)))))"

subsection \<open>The run (lines 35 to 97)\<close>

definition codex_mcp_server :: mcp_server where
  "codex_mcp_server =
     \<lparr>server_name = ''Codex CLI'', command = ''npx'', args = [''-y'', ''codex'', ''mcp''],
      client_session_timeout_seconds = 360000\<rparr>"

definition check_mark :: string where
  "check_mark = [CHR 0xE2, CHR 0x9C, CHR 0x93]"

definition gear_mark :: string where
  "gear_mark = [CHR 0xE2, CHR 0x9A, CHR 0x99, CHR 0xEF, CHR 0xB8, CHR 0x8F]"

definition indent :: string where
  "indent = replicate 20 CHR '' ''"

definition instructions_text :: "string \<Rightarrow> string \<Rightarrow> string" where
  \<open>instructions_text today date_str =
     ''You are a daily automation agent running on '' @ today @ ''.\<newline>'' @
     indent @ ''\<newline>'' @
     indent @ ''Execute these tasks:\<newline>'' @
     indent @ ''1. Analyze the repository structure and create a summary\<newline>'' @
     indent @ ''2. Generate a daily status report\<newline>'' @
     indent @ ''3. List any TODOs or issues found\<newline>'' @
     indent @ ''4. Create recommendations for improvements\<newline>'' @
     indent @ ''\<newline>'' @
     indent @ ''Save all outputs to ./daily-automation-output/report-'' @ date_str @ ''.md\<newline>'' @
     indent @ ''\<newline>'' @
     indent @ ''Always call Codex MCP with {"approval-policy":"never","sandbox":"workspace-write"}.\<newline>'' @
     indent\<close>

definition task_input :: string where
  "task_input = ''Execute daily automation and generate comprehensive report''"

definition summary_file :: "globals \<Rightarrow> path" where
  "summary_file g = path_join (OUTPUT_DIR g) (''summary-'' @ DATE_STR g @ ''.txt'')"

definition error_file :: "globals \<Rightarrow> path" where
  "error_file g = path_join (OUTPUT_DIR g) (''error-'' @ DATE_STR g @ ''.log'')"

definition error_msg :: "exn \<Rightarrow> string" where
  "error_msg e = ''Error in daily automation: '' @ exc_str e"

definition error_content :: "datetime \<Rightarrow> exn \<Rightarrow> string" where
  "error_content t e = str_datetime t @ '': '' @ error_msg e @ ''\<newline>'' @ exc_str e"

text \<open>The \<open>except Exception as e\<close> block (lines 90 to 97).\<close>

definition handler :: "globals \<Rightarrow> run_env \<Rightarrow> exn \<Rightarrow> world \<Rightarrow> world \<times> pyval outcome" where
  "handler g renv e w =
     (let w1 = print_to Stderr (error_msg e) w
      in case write_text (error_file g) (PyStr (error_content (clock_error renv) e))
                (error_fault renv) w1 of
           (w2, Some e') \<Rightarrow> (w2, Uncaught e')
         | (w2, None) \<Rightarrow> (w2, SysExit 1))"

text \<open>Lines 80 to 88: what the body does once \<open>Runner.run\<close> has returned.\<close>

definition after_run :: "globals \<Rightarrow> run_env \<Rightarrow> pyval \<Rightarrow> world \<Rightarrow> world \<times> (exn + pyval)" where
  "after_run g renv final_output w =
     (case print_try renv 80 (check_mark @ '' Daily automation completed'') w of
        (w1, Some e) \<Rightarrow> (w1, Inl e)
      | (w1, None) \<Rightarrow>
          (case print_try renv 81 (''\<newline>Final Output:\<newline>'' @ py_str final_output) w1 of
             (w2, Some e) \<Rightarrow> (w2, Inl e)
           | (w2, None) \<Rightarrow>
               (case write_text (summary_file g) final_output (summary_fault renv) w2 of
                  (w3, Some e) \<Rightarrow> (w3, Inl e)
                | (w3, None) \<Rightarrow>
                    (case print_try renv 86
                            (''\<newline>'' @ check_mark @ '' Summary saved to '' @ summary_file g) w3 of
                       (w4, Some e) \<Rightarrow> (w4, Inl e)
                     | (w4, None) \<Rightarrow> (w4, Inr final_output)))))"

text \<open>The body of the \<open>async with\<close> block (lines 48 to 88).\<close>

definition with_body :: "globals \<Rightarrow> run_env \<Rightarrow> mcp_server \<Rightarrow> world \<Rightarrow> world \<times> (exn + pyval)" where
  "with_body g renv srv w =
     (case print_try renv 48 (check_mark @ '' Codex MCP server started'') w of
        (w1, Some e) \<Rightarrow> (w1, Inl e)
      | (w1, None) \<Rightarrow>
          (let automation_agent =
                 \<lparr>agent_name = ''Daily Automation Agent'',
                  instructions =
                    instructions_text (strftime_ymd (clock_instructions renv)) (DATE_STR g),
                  model = ''gpt-5'',
                  mcp_servers = [srv]\<rparr>
           in case print_try renv 72 (gear_mark @ ''  Running daily automation tasks...'') w1 of
                (w2, Some e) \<Rightarrow> (w2, Inl e)
              | (w2, None) \<Rightarrow>
                  (let w3 = emit (RunnerRun automation_agent task_input 20 (run_result renv)) w2
                   in case run_result renv of
                        Inl e \<Rightarrow> (w3, Inl e)
                      | Inr final_output \<Rightarrow> after_run g renv final_output w3)))"

text \<open>
  \<open>run_daily_automation\<close>: the start print, the \<open>async with\<close> (enter, body, exit on every
  way out of the body; an exception raised by the exit replaces the one in flight), and
  the handler around the whole.
\<close>

definition run_daily_automation :: "globals \<Rightarrow> run_env \<Rightarrow> world \<Rightarrow> world \<times> pyval outcome" where
  "run_daily_automation g renv w =
     (let w0 = print_to Stdout
                 (''Starting daily automation at '' @ str_datetime (clock_start renv)) w
      in case enter_fault renv of
           Some e \<Rightarrow> handler g renv e (emit (ProviderEnter codex_mcp_server (Some e)) w0)
         | None \<Rightarrow>
             (case with_body g renv codex_mcp_server
                     (emit (ProviderEnter codex_mcp_server None) w0) of
                (w1, r) \<Rightarrow>
                  (let w2 = emit (ProviderExit codex_mcp_server (exit_fault renv)) w1
                   in case exit_fault renv of
                        Some e2 \<Rightarrow> handler g renv e2 w2
                      | None \<Rightarrow>
                          (case r of
                             Inl e \<Rightarrow> handler g renv e w2
                           | Inr v \<Rightarrow> (w2, Returned v)))))"

subsection \<open>The script (module load, then lines 100 to 105)\<close>

definition banner :: string where
  "banner = replicate 60 CHR ''=''"

definition initial_world :: "path set \<Rightarrow> (path \<rightharpoonup> string) \<Rightarrow> world" where
  "initial_world ds fs = \<lparr>dirs = ds, files = fs, log = []\<rparr>"

definition main :: "load_env \<Rightarrow> run_env \<Rightarrow> world \<Rightarrow> world \<times> unit outcome" where
  "main env renv w =
     (case module_init env w of
        (w1, SysExit n) \<Rightarrow> (w1, SysExit n)
      | (w1, Uncaught e) \<Rightarrow> (emit (Traceback e) w1, Uncaught e)
      | (w1, Returned g) \<Rightarrow>
          (let w2 = print_to Stdout banner w1;
               w3 = print_to Stdout ''Daily Codex Automation'' w2;
               w4 = print_to Stdout banner w3
           in case run_daily_automation g renv w4 of
                (w5, Returned v) \<Rightarrow> (print_to Stdout banner w5, Returned ())
              | (w5, SysExit n) \<Rightarrow> (w5, SysExit n)
              | (w5, Uncaught e) \<Rightarrow> (emit (Traceback e) w5, Uncaught e)))"

subsection \<open>A caller that runs the automation twice in one process\<close>

text \<open>
  The second call happens only when the first returned: on its error path
  \<open>run_daily_automation\<close> leaves through \<open>sys.exit\<close>.  Both calls see the same module
  globals.
\<close>

definition two_sequential_runs ::
  "globals \<Rightarrow> run_env \<Rightarrow> run_env \<Rightarrow> world \<Rightarrow> world \<times> pyval outcome" where
  "two_sequential_runs g renv1 renv2 w =
     (case run_daily_automation g renv1 w of
        (w1, Returned v) \<Rightarrow> run_daily_automation g renv2 w1
      | (w1, SysExit n) \<Rightarrow> (w1, SysExit n)
      | (w1, Uncaught e) \<Rightarrow> (w1, Uncaught e))"

subsection \<open>Observations on a log\<close>

text \<open>The events a program added to the log of the world it started in.\<close>

definition events_since :: "world \<Rightarrow> world \<Rightarrow> event list" where
  "events_since w w' = drop (length (log w)) (log w')"

text \<open>The texts printed on one console stream, in order.\<close>

fun printed :: "stream \<Rightarrow> event list \<Rightarrow> string list" where
  "printed st [] = []"
| "printed st (Print st' s # evs) = (if st' = st then s # printed st evs else printed st evs)"
| "printed st (ev # evs) = printed st evs"

text \<open>
  The files a log left created or modified: a write that returned, or one that failed
  after the file was opened.
\<close>

fun touched :: "event list \<Rightarrow> path list" where
  "touched [] = []"
| "touched (WriteText p d None # evs) = p # touched evs"
| "touched (WriteText p d (Some (FailAfterOpen e n)) # evs) = p # touched evs"
| "touched (ev # evs) = touched evs"

text \<open>A \<open>write_text\<close> call left the file created or truncated.\<close>

fun leaves_file :: "pyval \<Rightarrow> write_fault option \<Rightarrow> bool" where
  "leaves_file (PyStr s) None = True"
| "leaves_file (PyStr s) (Some (FailAfterOpen e n)) = True"
| "leaves_file d f = False"

text \<open>Use of the agent library: configuration, tool-provider process, hosted service.\<close>

fun is_activity :: "event \<Rightarrow> bool" where
  "is_activity (SetDefaultOpenaiApi k r) = True"
| "is_activity (ProviderEnter s r) = True"
| "is_activity (ProviderExit s r) = True"
| "is_activity (RunnerRun a i n r) = True"
| "is_activity ev = False"

fun is_write :: "event \<Rightarrow> bool" where
  "is_write (WriteText p d r) = True"
| "is_write ev = False"

fun is_submission :: "event \<Rightarrow> bool" where
  "is_submission (RunnerRun a i n r) = True"
| "is_submission ev = False"

fun is_exit_of :: "mcp_server \<Rightarrow> event \<Rightarrow> bool" where
  "is_exit_of s (ProviderExit s' r) = (s' = s)"
| "is_exit_of s ev = False"

text \<open>Every tool provider that was started is shut down later in the log.\<close>

fun released_later :: "event list \<Rightarrow> bool" where
  "released_later [] = True"
| "released_later (ProviderEnter s None # evs) = (list_ex (is_exit_of s) evs \<and> released_later evs)"
| "released_later (ev # evs) = released_later evs"

text \<open>A tool provider was started (the \<open>async with\<close> was entered); one was shut down.\<close>

fun is_acquired :: "event \<Rightarrow> bool" where
  "is_acquired (ProviderEnter s None) = True"
| "is_acquired ev = False"

fun is_released :: "event \<Rightarrow> bool" where
  "is_released (ProviderExit s r) = True"
| "is_released ev = False"

definition is_summary_path :: "path \<Rightarrow> bool" where
  "is_summary_path p = prefix (path_join output_dir ''summary-'') p"

definition is_error_path :: "path \<Rightarrow> bool" where
  "is_error_path p = prefix (path_join output_dir ''error-'') p"

text \<open>The module load went through: imports, directory, credential, library set-up.\<close>

definition load_succeeds :: "load_env \<Rightarrow> world \<Rightarrow> bool" where
  "load_succeeds env w =
     (import_ok env \<and> snd (mkdir_exist_ok output_dir (mkdir_fault env) w) = None \<and>
      \<not> py_not (getenv_OPENAI_API_KEY env) \<and> set_api_fault env = None)"

text \<open>
  The run gets as far as the service call of line 74: the tool provider started and the two
  progress prints of lines 48 and 72 returned.
\<close>

definition reaches_service :: "run_env \<Rightarrow> bool" where
  "reaches_service renv =
     (enter_fault renv = None \<and> print_fault renv 48 = None \<and> print_fault renv 72 = None)"

text \<open>
  Once the service call has returned, the run gets as far as the summary write of line 85:
  the two prints of lines 80 and 81 returned.
\<close>

definition reaches_summary_write :: "run_env \<Rightarrow> bool" where
  "reaches_summary_write renv =
     (reaches_service renv \<and> print_fault renv 80 = None \<and> print_fault renv 81 = None)"

text \<open>The globals a successful load defines.\<close>

definition loaded_globals :: "load_env \<Rightarrow> globals" where
  "loaded_globals env =
     \<lparr>OUTPUT_DIR = output_dir, DATE_STR = strftime_compact (clock_load env),
      API_KEY = the (getenv_OPENAI_API_KEY env)\<rparr>"

subsection \<open>Sample environments\<close>

definition sample_time :: datetime where
  "sample_time =
     \<lparr>year = 2026, month = 11, day = 4, hour = 9, minute = 30, second = 5, microsecond = 0\<rparr>"

definition sample_load_env :: load_env where
  "sample_load_env =
     \<lparr>import_ok = True, mkdir_fault = None, clock_load = sample_time,
      getenv_OPENAI_API_KEY = Some ''sk-test'', set_api_fault = None\<rparr>"

definition sample_run_env :: run_env where
  "sample_run_env =
     \<lparr>print_fault = (\<lambda>l. None), clock_start = sample_time, enter_fault = None,
      clock_instructions = sample_time,
      run_result = Inr (PyStr ''report done''), summary_fault = None, exit_fault = None,
      clock_error = sample_time, error_fault = None\<rparr>"

definition fresh_world :: world where
  "fresh_world = initial_world {} Map.empty"

definition used_world :: world where
  "used_world =
     initial_world {''daily-automation-output''}
       [''daily-automation-output/summary-20261104_154505.txt'' \<mapsto> ''old report'']"

definition sample_later_time :: datetime where
  "sample_later_time = sample_time\<lparr>hour := 15, minute := 45\<rparr>"

definition permission_denied :: exn where
  "permission_denied = PyException ''PermissionError'' ''[Errno 13] Permission denied''"

text \<open>Two platforms with UTF-8 as default encoding: line feed, and carriage return line feed.\<close>

definition posix_utf8 :: platform where
  "posix_utf8 = \<lparr>linesep = [CHR 0x0A], encode = (\<lambda>s. s)\<rparr>"

definition windows_utf8 :: platform where
  "windows_utf8 = \<lparr>linesep = [CHR 0x0D, CHR 0x0A], encode = (\<lambda>s. s)\<rparr>"

definition cannot_encode :: exn where
  "cannot_encode =
     PyException ''UnicodeEncodeError''
       ''charmap codec cannot encode character u2713 in position 0''"

definition npx_missing :: exn where
  "npx_missing = PyException ''FileNotFoundError'' ''[Errno 2] No such file or directory: npx''"

subsection \<open>Effects in closed form\<close>

text \<open>
  The log, the files and the outcome of each function of the model, written as functions of
  the environment alone.  The lemmas of the next section prove them equal to what the
  model computes; the properties are then read off these forms.
\<close>

text \<open>The exception a \<open>write_text\<close> call raises, if any.\<close>

definition write_raises :: "pyval \<Rightarrow> write_fault option \<Rightarrow> exn option" where
  "write_raises data fault =
     (case data of
        PyOther cls s \<Rightarrow> Some (PyException ''TypeError'' (''data must be str, not '' @ cls))
      | PyStr s \<Rightarrow>
          (case fault of
             None \<Rightarrow> None
           | Some (FailBeforeOpen e) \<Rightarrow> Some e
           | Some (FailAfterOpen e n) \<Rightarrow> Some e))"

text \<open>The log entry of a \<open>write_text\<close> call.\<close>

definition write_event :: "path \<Rightarrow> pyval \<Rightarrow> write_fault option \<Rightarrow> event" where
  "write_event p data fault =
     (case data of
        PyOther cls s \<Rightarrow>
          WriteText p data
            (Some (FailBeforeOpen (PyException ''TypeError'' (''data must be str, not '' @ cls))))
      | PyStr s \<Rightarrow> WriteText p data fault)"

text \<open>The files after a \<open>write_text\<close> call.\<close>

definition write_files ::
  "path \<Rightarrow> pyval \<Rightarrow> write_fault option \<Rightarrow> (path \<rightharpoonup> string) \<Rightarrow> (path \<rightharpoonup> string)" where
  "write_files p data fault fs =
     (case data of
        PyOther cls s \<Rightarrow> fs
      | PyStr s \<Rightarrow>
          (case fault of
             None \<Rightarrow> fs(p \<mapsto> s)
           | Some (FailBeforeOpen e) \<Rightarrow> fs
           | Some (FailAfterOpen e n) \<Rightarrow> fs(p \<mapsto> take n s)))"

text \<open>What the handler adds to the log, and how it ends.\<close>

definition handler_trace :: "globals \<Rightarrow> run_env \<Rightarrow> exn \<Rightarrow> event list" where
  "handler_trace g renv e =
     [Print Stderr (error_msg e),
      WriteText (error_file g) (PyStr (error_content (clock_error renv) e)) (error_fault renv)]"

definition handler_outcome :: "run_env \<Rightarrow> pyval outcome" where
  "handler_outcome renv =
     (case error_fault renv of
        None \<Rightarrow> SysExit 1
      | Some (FailBeforeOpen e) \<Rightarrow> Uncaught e
      | Some (FailAfterOpen e n) \<Rightarrow> Uncaught e)"

text \<open>Lines 80 to 88 in closed form: how they end, what they log, the files they leave.\<close>

definition after_result :: "run_env \<Rightarrow> pyval \<Rightarrow> exn + pyval" where
  "after_result renv v =
     (case print_fault renv 80 of
        Some e \<Rightarrow> Inl e
      | None \<Rightarrow>
          (case print_fault renv 81 of
             Some e \<Rightarrow> Inl e
           | None \<Rightarrow>
               (case write_raises v (summary_fault renv) of
                  Some e \<Rightarrow> Inl e
                | None \<Rightarrow> (case print_fault renv 86 of Some e \<Rightarrow> Inl e | None \<Rightarrow> Inr v))))"

definition after_trace :: "globals \<Rightarrow> run_env \<Rightarrow> pyval \<Rightarrow> event list" where
  "after_trace g renv v =
     (case print_fault renv 80 of
        Some e \<Rightarrow> [PrintRaised Stdout (check_mark @ '' Daily automation completed'') e]
      | None \<Rightarrow>
          Print Stdout (check_mark @ '' Daily automation completed'') #
          (case print_fault renv 81 of
             Some e \<Rightarrow> [PrintRaised Stdout (''\<newline>Final Output:\<newline>'' @ py_str v) e]
           | None \<Rightarrow>
               Print Stdout (''\<newline>Final Output:\<newline>'' @ py_str v) #
               write_event (summary_file g) v (summary_fault renv) #
               (case write_raises v (summary_fault renv) of
                  Some e \<Rightarrow> []
                | None \<Rightarrow>
                    (case print_fault renv 86 of
                       Some e \<Rightarrow>
                         [PrintRaised Stdout
                            (''\<newline>'' @ check_mark @ '' Summary saved to '' @ summary_file g) e]
                     | None \<Rightarrow>
                         [Print Stdout
                            (''\<newline>'' @ check_mark @ '' Summary saved to '' @
                             summary_file g)]))))"

definition after_files ::
  "globals \<Rightarrow> run_env \<Rightarrow> pyval \<Rightarrow> (path \<rightharpoonup> string) \<Rightarrow> (path \<rightharpoonup> string)" where
  "after_files g renv v fs =
     (if print_fault renv 80 = None \<and> print_fault renv 81 = None
      then write_files (summary_file g) v (summary_fault renv) fs else fs)"

text \<open>The body in closed form.\<close>

definition body_result :: "run_env \<Rightarrow> exn + pyval" where
  "body_result renv =
     (case print_fault renv 48 of
        Some e \<Rightarrow> Inl e
      | None \<Rightarrow>
          (case print_fault renv 72 of
             Some e \<Rightarrow> Inl e
           | None \<Rightarrow>
               (case run_result renv of Inl e \<Rightarrow> Inl e | Inr v \<Rightarrow> after_result renv v)))"

definition body_trace :: "globals \<Rightarrow> run_env \<Rightarrow> mcp_server \<Rightarrow> event list" where
  "body_trace g renv srv =
     (case print_fault renv 48 of
        Some e \<Rightarrow> [PrintRaised Stdout (check_mark @ '' Codex MCP server started'') e]
      | None \<Rightarrow>
          Print Stdout (check_mark @ '' Codex MCP server started'') #
          (case print_fault renv 72 of
             Some e \<Rightarrow>
               [PrintRaised Stdout (gear_mark @ ''  Running daily automation tasks...'') e]
           | None \<Rightarrow>
               Print Stdout (gear_mark @ ''  Running daily automation tasks...'') #
               RunnerRun
                 \<lparr>agent_name = ''Daily Automation Agent'',
                  instructions =
                    instructions_text (strftime_ymd (clock_instructions renv)) (DATE_STR g),
                  model = ''gpt-5'',
                  mcp_servers = [srv]\<rparr>
                 task_input 20 (run_result renv) #
               (case run_result renv of Inl e \<Rightarrow> [] | Inr v \<Rightarrow> after_trace g renv v)))"

definition body_files :: "globals \<Rightarrow> run_env \<Rightarrow> (path \<rightharpoonup> string) \<Rightarrow> (path \<rightharpoonup> string)" where
  "body_files g renv fs =
     (if print_fault renv 48 = None \<and> print_fault renv 72 = None
      then (case run_result renv of Inl e \<Rightarrow> fs | Inr v \<Rightarrow> after_files g renv v fs)
      else fs)"

text \<open>The exception that reaches the handler of \<open>run_daily_automation\<close>, if any.\<close>

definition run_caught :: "run_env \<Rightarrow> exn option" where
  "run_caught renv =
     (case enter_fault renv of
        Some e \<Rightarrow> Some e
      | None \<Rightarrow>
          (case exit_fault renv of
             Some e2 \<Rightarrow> Some e2
           | None \<Rightarrow> (case body_result renv of Inl e \<Rightarrow> Some e | Inr v \<Rightarrow> None)))"

text \<open>What one call of \<open>run_daily_automation\<close> adds to the log, the files it leaves and how it ends.\<close>

definition run_trace :: "globals \<Rightarrow> run_env \<Rightarrow> event list" where
  "run_trace g renv =
     [Print Stdout (''Starting daily automation at '' @ str_datetime (clock_start renv)),
      ProviderEnter codex_mcp_server (enter_fault renv)] @
     (case enter_fault renv of
        Some e \<Rightarrow> []
      | None \<Rightarrow> body_trace g renv codex_mcp_server @
                [ProviderExit codex_mcp_server (exit_fault renv)]) @
     (case run_caught renv of Some e \<Rightarrow> handler_trace g renv e | None \<Rightarrow> [])"

definition run_files :: "globals \<Rightarrow> run_env \<Rightarrow> (path \<rightharpoonup> string) \<Rightarrow> (path \<rightharpoonup> string)" where
  "run_files g renv fs =
     (let fs1 = (case enter_fault renv of Some e \<Rightarrow> fs | None \<Rightarrow> body_files g renv fs)
      in case run_caught renv of
           Some e \<Rightarrow>
             write_files (error_file g) (PyStr (error_content (clock_error renv) e))
               (error_fault renv) fs1
         | None \<Rightarrow> fs1)"

definition run_outcome :: "run_env \<Rightarrow> pyval outcome" where
  "run_outcome renv =
     (case run_caught renv of
        Some e \<Rightarrow> handler_outcome renv
      | None \<Rightarrow>
          (case body_result renv of Inr v \<Rightarrow> Returned v | Inl e \<Rightarrow> handler_outcome renv))"

text \<open>The module load in closed form.\<close>

definition load_raises :: "load_env \<Rightarrow> world \<Rightarrow> exn option" where
  "load_raises env w = snd (mkdir_exist_ok output_dir (mkdir_fault env) w)"

definition load_trace :: "load_env \<Rightarrow> world \<Rightarrow> event list" where
  "load_trace env w =
     (if \<not> import_ok env then [Print Stdout import_hint]
      else
        Mkdir output_dir (load_raises env w) #
        (case load_raises env w of
           Some e \<Rightarrow> []
         | None \<Rightarrow>
             if py_not (getenv_OPENAI_API_KEY env) then [Print Stdout missing_key_msg]
             else [SetDefaultOpenaiApi (the (getenv_OPENAI_API_KEY env)) (set_api_fault env)]))"

definition load_outcome :: "load_env \<Rightarrow> world \<Rightarrow> globals outcome" where
  "load_outcome env w =
     (if \<not> import_ok env then SysExit 1
      else
        (case load_raises env w of
           Some e \<Rightarrow> Uncaught e
         | None \<Rightarrow>
             if py_not (getenv_OPENAI_API_KEY env) then SysExit 1
             else
               (case set_api_fault env of
                  Some e \<Rightarrow> Uncaught e
                | None \<Rightarrow> Returned (loaded_globals env))))"

definition load_dirs :: "load_env \<Rightarrow> world \<Rightarrow> path set" where
  "load_dirs env w =
     (if import_ok env \<and> load_raises env w = None then insert output_dir (dirs w)
      else dirs w)"

text \<open>The script in closed form.\<close>

definition main_trace :: "load_env \<Rightarrow> run_env \<Rightarrow> world \<Rightarrow> event list" where
  "main_trace env renv w =
     load_trace env w @
     (case load_outcome env w of
        SysExit n \<Rightarrow> []
      | Uncaught e \<Rightarrow> [Traceback e]
      | Returned g \<Rightarrow>
          [Print Stdout banner, Print Stdout ''Daily Codex Automation'', Print Stdout banner] @
          run_trace g renv @
          (case run_outcome renv of
             Returned v \<Rightarrow> [Print Stdout banner]
           | SysExit n \<Rightarrow> []
           | Uncaught e \<Rightarrow> [Traceback e]))"

definition main_files :: "load_env \<Rightarrow> run_env \<Rightarrow> world \<Rightarrow> (path \<rightharpoonup> string)" where
  "main_files env renv w =
     (case load_outcome env w of
        Returned g \<Rightarrow> run_files g renv (files w)
      | SysExit n \<Rightarrow> files w
      | Uncaught e \<Rightarrow> files w)"

definition main_outcome :: "load_env \<Rightarrow> run_env \<Rightarrow> world \<Rightarrow> unit outcome" where
  "main_outcome env renv w =
     (case load_outcome env w of
        SysExit n \<Rightarrow> SysExit n
      | Uncaught e \<Rightarrow> Uncaught e
      | Returned g \<Rightarrow>
          (case run_outcome renv of
             Returned v \<Rightarrow> Returned ()
           | SysExit n \<Rightarrow> SysExit n
           | Uncaught e \<Rightarrow> Uncaught e))"

section \<open>The model computes the closed forms\<close>

lemma emit_simps:
  "log (emit ev w) = log w @ [ev]" "files (emit ev w) = files w" "dirs (emit ev w) = dirs w"
  by (simp_all add: emit_def)

lemma print_to_simps:
  "log (print_to st s w) = log w @ [Print st s]" "files (print_to st s w) = files w"
  "dirs (print_to st s w) = dirs w"
  by (simp_all add: print_to_def emit_simps)

lemma write_text_simps:
  "log (fst (write_text p d f w)) = log w @ [write_event p d f]"
  "files (fst (write_text p d f w)) = write_files p d f (files w)"
  "dirs (fst (write_text p d f w)) = dirs w"
  "snd (write_text p d f w) = write_raises d f"
  by (simp_all add: write_text_def write_event_def write_files_def write_raises_def emit_simps
        Let_def split: pyval.split option.split write_fault.split)

lemma handler_simps:
  "log (fst (handler g renv e w)) = log w @ handler_trace g renv e"
  "files (fst (handler g renv e w)) =
     write_files (error_file g) (PyStr (error_content (clock_error renv) e)) (error_fault renv)
       (files w)"
  "dirs (fst (handler g renv e w)) = dirs w"
  "snd (handler g renv e w) = handler_outcome renv"
  by (simp_all add: handler_def Let_def handler_trace_def handler_outcome_def case_prod_beta
        write_text_simps print_to_simps write_event_def write_raises_def
        split: option.split write_fault.split)

lemma print_try_simps:
  "log (fst (print_try renv l s w)) =
     log w @ [case print_fault renv l of
                None \<Rightarrow> Print Stdout s | Some e \<Rightarrow> PrintRaised Stdout s e]"
  "files (fst (print_try renv l s w)) = files w"
  "dirs (fst (print_try renv l s w)) = dirs w"
  "snd (print_try renv l s w) = print_fault renv l"
  by (simp_all add: print_try_def emit_simps split: option.split)

lemma after_run_simps:
  "log (fst (after_run g renv v w)) = log w @ after_trace g renv v"
  "files (fst (after_run g renv v w)) = after_files g renv v (files w)"
  "dirs (fst (after_run g renv v w)) = dirs w"
  "snd (after_run g renv v w) = after_result renv v"
  by (simp_all add: after_run_def after_trace_def after_files_def after_result_def
        case_prod_beta write_text_simps print_try_simps split: option.split)

lemma with_body_simps:
  "log (fst (with_body g renv srv w)) = log w @ body_trace g renv srv"
  "files (fst (with_body g renv srv w)) = body_files g renv (files w)"
  "dirs (fst (with_body g renv srv w)) = dirs w"
  "snd (with_body g renv srv w) = body_result renv"
  by (simp_all add: with_body_def Let_def body_trace_def body_files_def body_result_def
        case_prod_beta after_run_simps print_try_simps emit_simps
        split: sum.split option.split)

lemma run_daily_automation_simps:
  "log (fst (run_daily_automation g renv w)) = log w @ run_trace g renv"
  "files (fst (run_daily_automation g renv w)) = run_files g renv (files w)"
  "dirs (fst (run_daily_automation g renv w)) = dirs w"
  "snd (run_daily_automation g renv w) = run_outcome renv"
  by (simp_all add: run_daily_automation_def Let_def run_trace_def run_files_def
        run_outcome_def run_caught_def
        case_prod_beta with_body_simps handler_simps print_to_simps emit_simps
        split: sum.split option.split)

lemma module_init_simps:
  "log (fst (module_init env w)) = log w @ load_trace env w"
  "files (fst (module_init env w)) = files w"
  "dirs (fst (module_init env w)) = load_dirs env w"
  "snd (module_init env w) = load_outcome env w"
  by (auto simp add: module_init_def mkdir_exist_ok_def load_trace_def load_outcome_def
        load_dirs_def load_raises_def loaded_globals_def Let_def print_to_simps emit_simps
        insert_absorb split: option.split)

lemma main_simps:
  "log (fst (main env renv w)) = log w @ main_trace env renv w"
  "files (fst (main env renv w)) = main_files env renv w"
  "dirs (fst (main env renv w)) = load_dirs env w"
  "snd (main env renv w) = main_outcome env renv w"
  by (simp_all add: main_def main_trace_def main_files_def main_outcome_def Let_def
        case_prod_beta module_init_simps run_daily_automation_simps print_to_simps emit_simps
        split: outcome.split)

lemma main_events: "events_since w (fst (main env renv w)) = main_trace env renv w"
  by (simp add: events_since_def main_simps)

lemma run_events:
  "events_since w (fst (run_daily_automation g renv w)) = run_trace g renv"
  by (simp add: events_since_def run_daily_automation_simps)

lemma load_succeeds_simps:
  assumes "load_succeeds env w"
  shows "load_outcome env w = Returned (loaded_globals env)"
    and "load_trace env w =
           [Mkdir output_dir None,
            SetDefaultOpenaiApi (the (getenv_OPENAI_API_KEY env)) None]"
    and "load_dirs env w = insert output_dir (dirs w)"
  using assms
  by (simp_all add: load_succeeds_def load_outcome_def load_trace_def load_dirs_def
        load_raises_def)

lemma load_trace_quiet:
  "filter is_submission (load_trace env w) = []"
  "filter is_acquired (load_trace env w) = []"
  "filter is_released (load_trace env w) = []"
  "touched (load_trace env w) = []"
  "released_later (load_trace env w)"
  "printed Stderr (load_trace env w) = []"
  by (simp_all add: load_trace_def split: option.split)

lemma touched_append: "touched (xs @ ys) = touched xs @ touched ys"
  by (induction xs rule: touched.induct) simp_all

lemma printed_append: "printed st (xs @ ys) = printed st xs @ printed st ys"
  by (induction st xs rule: printed.induct) simp_all

lemma released_later_append:
  "released_later xs \<Longrightarrow> released_later ys \<Longrightarrow> released_later (xs @ ys)"
  by (induction xs rule: released_later.induct) simp_all

lemma output_paths:
  assumes "OUTPUT_DIR g = output_dir"
  shows "is_summary_path (summary_file g)" and "\<not> is_summary_path (error_file g)"
    and "is_error_path (error_file g)" and "\<not> is_error_path (summary_file g)"
    and "summary_file g \<noteq> error_file g" and "error_file g \<noteq> summary_file g"
  using assms
  by (simp_all add: is_summary_path_def is_error_path_def summary_file_def error_file_def
        path_join_def output_dir_def)

lemma loaded_output_dir: "OUTPUT_DIR (loaded_globals env) = output_dir"
  by (simp add: loaded_globals_def)

lemma is_acquired_iff: "is_acquired (ProviderEnter s r) = (r = None)"
  by (cases r) simp_all

lemma load_fails:
  assumes "\<not> load_succeeds env w"
  shows "main_trace env renv w =
           load_trace env w @
           (case load_outcome env w of Uncaught e \<Rightarrow> [Traceback e] | _ \<Rightarrow> [])"
    and "main_files env renv w = files w"
    and "main_outcome env renv w =
           (case load_outcome env w of Uncaught e \<Rightarrow> Uncaught e | _ \<Rightarrow> SysExit 1)"
  using assms
  by (auto simp add: main_trace_def main_files_def main_outcome_def load_outcome_def
        load_succeeds_def load_raises_def split: option.split)

lemma load_passes:
  assumes "load_succeeds env w"
  shows "main_trace env renv w =
           [Mkdir output_dir None,
            SetDefaultOpenaiApi (the (getenv_OPENAI_API_KEY env)) None,
            Print Stdout banner, Print Stdout ''Daily Codex Automation'', Print Stdout banner] @
           run_trace (loaded_globals env) renv @
           (case run_outcome renv of
              Returned v \<Rightarrow> [Print Stdout banner]
            | SysExit n \<Rightarrow> []
            | Uncaught e \<Rightarrow> [Traceback e])"
    and "main_files env renv w = run_files (loaded_globals env) renv (files w)"
    and "main_outcome env renv w =
           (case run_outcome renv of
              Returned v \<Rightarrow> Returned ()
            | SysExit n \<Rightarrow> SysExit n
            | Uncaught e \<Rightarrow> Uncaught e)"
  by (simp_all add: main_trace_def main_files_def main_outcome_def
        load_succeeds_simps [OF assms])

lemma after_trace_quiet:
  "filter is_submission (after_trace g renv v) = []"
  "filter is_acquired (after_trace g renv v) = []"
  "filter is_released (after_trace g renv v) = []"
  "printed Stderr (after_trace g renv v) = []"
  "released_later (after_trace g renv v @ evs) = released_later evs"
  by (simp_all add: after_trace_def write_event_def split: option.split pyval.split)

lemma body_trace_quiet:
  "filter is_acquired (body_trace g renv srv) = []"
  "filter is_released (body_trace g renv srv) = []"
  "printed Stderr (body_trace g renv srv) = []"
  "released_later (body_trace g renv srv @ evs) = released_later evs"
  by (simp_all add: body_trace_def after_trace_quiet printed_append
        split: option.split sum.split)

lemma body_submission:
  "filter is_submission (body_trace g renv srv) =
     (if print_fault renv 48 = None \<and> print_fault renv 72 = None
      then [RunnerRun
              \<lparr>agent_name = ''Daily Automation Agent'',
               instructions =
                 instructions_text (strftime_ymd (clock_instructions renv)) (DATE_STR g),
               model = ''gpt-5'',
               mcp_servers = [srv]\<rparr>
              task_input 20 (run_result renv)]
      else [])"
  by (simp add: body_trace_def after_trace_quiet split: option.split sum.split)

lemma run_submission:
  "filter is_submission (run_trace g renv) =
     (if reaches_service renv
      then [RunnerRun
              \<lparr>agent_name = ''Daily Automation Agent'',
               instructions =
                 instructions_text (strftime_ymd (clock_instructions renv)) (DATE_STR g),
               model = ''gpt-5'',
               mcp_servers = [codex_mcp_server]\<rparr>
              task_input 20 (run_result renv)]
      else [])"
  by (simp add: run_trace_def body_submission reaches_service_def handler_trace_def
        split: option.split)

lemma run_released: "released_later (run_trace g renv)"
  by (simp add: run_trace_def body_trace_quiet handler_trace_def split: option.split)

lemma run_acquired:
  "filter is_acquired (run_trace g renv) =
     (if enter_fault renv = None then [ProviderEnter codex_mcp_server None] else [])"
  by (simp add: run_trace_def body_trace_quiet handler_trace_def is_acquired_iff
        split: option.split)

lemma run_exits:
  "filter is_released (run_trace g renv) =
     (if enter_fault renv = None then [ProviderExit codex_mcp_server (exit_fault renv)] else [])"
  by (simp add: run_trace_def body_trace_quiet handler_trace_def split: option.split)

lemma touched_WriteText:
  "touched (WriteText p d f # evs) =
     (case f of
        None \<Rightarrow> [p]
      | Some (FailBeforeOpen e) \<Rightarrow> []
      | Some (FailAfterOpen e n) \<Rightarrow> [p]) @ touched evs"
  by (simp split: option.split write_fault.split)

lemma loaded_paths:
  "summary_file (loaded_globals env) =
     ''daily-automation-output/summary-'' @ strftime_compact (clock_load env) @ ''.txt''"
  "error_file (loaded_globals env) =
     ''daily-automation-output/error-'' @ strftime_compact (clock_load env) @ ''.log''"
  by (simp_all add: summary_file_def error_file_def path_join_def output_dir_def
        loaded_globals_def)

lemma error_content_contains:
  "error_content t e \<noteq> []"
  "sublist (error_msg e) (error_content t e)"
  "suffix (exc_str e) (error_content t e)"
proof -
  show "error_content t e \<noteq> []"
    by (simp add: error_content_def)
  have "error_content t e = (str_datetime t @ '': '') @ error_msg e @ (''\<newline>'' @ exc_str e)"
    by (simp add: error_content_def)
  then show "sublist (error_msg e) (error_content t e)"
    by (metis sublist_appendI)
  have "error_content t e = (str_datetime t @ '': '' @ error_msg e @ ''\<newline>'') @ exc_str e"
    by (simp add: error_content_def)
  then show "suffix (exc_str e) (error_content t e)"
    by (metis suffixI)
qed

lemma touched_write_event:
  "touched (write_event p d f # evs) = (if leaves_file d f then [p] else []) @ touched evs"
  by (auto simp add: write_event_def touched_WriteText
        split: pyval.split option.split write_fault.split)

lemma write_files_kept: "\<not> leaves_file d f \<Longrightarrow> write_files p d f fs = fs"
  by (auto simp add: write_files_def split: pyval.split option.split write_fault.split)

lemma write_files_other: "q \<noteq> p \<Longrightarrow> write_files p d f fs q = fs q"
  by (auto simp add: write_files_def split: pyval.split option.split write_fault.split)

lemma is_write_write_event: "is_write (write_event p d f)"
  by (simp add: write_event_def split: pyval.split)

lemma printed_write_event: "printed st (write_event p d f # evs) = printed st evs"
  by (simp add: write_event_def split: pyval.split)

lemma handler_touched: "set (touched (handler_trace g renv e)) \<subseteq> {error_file g}"
  by (auto simp add: handler_trace_def touched_WriteText split: option.split write_fault.split)

lemma after_touched: "set (touched (after_trace g renv v)) \<subseteq> {summary_file g}"
  by (auto simp add: after_trace_def touched_write_event split: option.split)

lemma body_touched: "set (touched (body_trace g renv srv)) \<subseteq> {summary_file g}"
  using after_touched [of g renv]
  by (auto simp add: body_trace_def split: sum.split option.split)

lemma run_touched: "set (touched (run_trace g renv)) \<subseteq> {summary_file g, error_file g}"
  using handler_touched [of g renv] body_touched [of g renv codex_mcp_server]
  by (auto simp add: run_trace_def touched_append split: option.split)

lemma run_files_other:
  "p \<noteq> summary_file g \<Longrightarrow> p \<noteq> error_file g \<Longrightarrow> run_files g renv fs p = fs p"
  by (simp add: run_files_def body_files_def after_files_def Let_def write_files_other
        split: option.split sum.split)

lemma translate_newlines_posix: "translate_newlines [CHR 0x0A] s = s"
  by (induction s) simp_all

lemma posix_utf8_simps: "linesep posix_utf8 = [CHR 0x0A]" "encode posix_utf8 s = s"
  by (simp_all add: posix_utf8_def)

lemma stamps_differ:
  assumes "strftime_compact (clock_load env') \<noteq> strftime_compact (clock_load env)"
  shows "summary_file (loaded_globals env') \<noteq> summary_file (loaded_globals env)"
    and "summary_file (loaded_globals env') \<noteq> error_file (loaded_globals env)"
    and "error_file (loaded_globals env') \<noteq> summary_file (loaded_globals env)"
    and "error_file (loaded_globals env') \<noteq> error_file (loaded_globals env)"
  using assms by (simp_all add: loaded_paths)

lemma load_raises_files:
  "dom fs = dom (files w) \<Longrightarrow> load_raises env (w\<lparr>files := fs\<rparr>) = load_raises env w"
  by (simp add: load_raises_def mkdir_exist_ok_def emit_def Let_def split: option.split)

lemma two_sequential_runs_simps:
  assumes "run_outcome renv1 = Returned v"
  shows "log (fst (two_sequential_runs g renv1 renv2 w)) =
           log w @ run_trace g renv1 @ run_trace g renv2"
    and "files (fst (two_sequential_runs g renv1 renv2 w)) =
           run_files g renv2 (run_files g renv1 (files w))"
  by (simp_all add: two_sequential_runs_def case_prod_beta run_daily_automation_simps assms)

lemma sample_stamp: "strftime_compact sample_time = ''20261104_093005''"
  by code_simp

lemma sample_clock: "str_datetime sample_time = ''2026-11-04 09:30:05''"
  by code_simp

lemma sample_day: "strftime_ymd sample_time = ''2026-11-04''"
  by code_simp

lemma sample_load_ok: "load_succeeds sample_load_env fresh_world"
  by (simp add: load_succeeds_def sample_load_env_def fresh_world_def initial_world_def
        mkdir_exist_ok_def emit_def)

lemmas run_closed_forms =
  run_trace_def run_files_def run_outcome_def run_caught_def body_trace_def body_files_def
  body_result_def after_trace_def after_files_def after_result_def handler_trace_def
  handler_outcome_def write_event_def write_files_def write_raises_def

lemma sample_paths:
  "summary_file (loaded_globals sample_load_env) =
     ''daily-automation-output/summary-20261104_093005.txt''"
  "error_file (loaded_globals sample_load_env) =
     ''daily-automation-output/error-20261104_093005.log''"
  by (simp_all add: loaded_paths sample_load_env_def sample_stamp)

lemma sample_run_returns: "run_outcome sample_run_env = Returned (PyStr ''report done'')"
  by (simp add: run_closed_forms sample_run_env_def)

lemma sample_later_stamp: "strftime_compact sample_later_time = ''20261104_154505''"
  by code_simp

lemma sample_load_stamp: "strftime_compact (clock_load sample_load_env) = ''20261104_093005''"
  by (simp add: sample_load_env_def sample_stamp)

section \<open>Properties\<close>

text \<open>
  C10.  When the agent packages cannot be imported, the script prints the installation hint
  on standard output and exits with status 1, and that print is its only effect: no
  directory is created and no file is written.
\<close>

theorem import_failure_exits_before_any_side_effect:
  "\<not> import_ok env \<Longrightarrow>
     snd (main env renv w) = SysExit 1 \<and>
     exit_status (snd (main env renv w)) = 1 \<and>
     events_since w (fst (main env renv w)) = [Print Stdout import_hint] \<and>
     dirs (fst (main env renv w)) = dirs w \<and>
     files (fst (main env renv w)) = files w"
  by (simp add: main_events main_simps main_trace_def main_outcome_def main_files_def
        load_trace_def load_outcome_def load_dirs_def)

theorem import_failure_witness:
  "\<not> import_ok (sample_load_env\<lparr>import_ok := False\<rparr>) \<and>
   snd (main (sample_load_env\<lparr>import_ok := False\<rparr>) sample_run_env fresh_world) = SysExit 1 \<and>
   events_since fresh_world
     (fst (main (sample_load_env\<lparr>import_ok := False\<rparr>) sample_run_env fresh_world)) =
     [Print Stdout
        ''Error: Required packages not installed. Run: pip install openai openai-agents''] \<and>
   dirs (fst (main (sample_load_env\<lparr>import_ok := False\<rparr>) sample_run_env fresh_world)) = {} \<and>
   files (fst (main (sample_load_env\<lparr>import_ok := False\<rparr>) sample_run_env fresh_world)) =
     Map.empty"
  using import_failure_exits_before_any_side_effect
          [of "sample_load_env\<lparr>import_ok := False\<rparr>" sample_run_env fresh_world]
  by (simp add: sample_load_env_def fresh_world_def initial_world_def import_hint_def)

text \<open>
  C2.  When the credential variable is unset or empty, the script ends with status 1, leaves
  every file as it was, writes none, and makes no use of the agent library: no tool
  provider is started and no task is submitted.  This holds on every path, also when the
  imports or the directory creation fail first.
\<close>

theorem missing_credential_exits_1_and_writes_no_file:
  "getenv_OPENAI_API_KEY env = None \<or> getenv_OPENAI_API_KEY env = Some [] \<Longrightarrow>
     exit_status (snd (main env renv w)) = 1 \<and>
     files (fst (main env renv w)) = files w \<and>
     filter is_write (events_since w (fst (main env renv w))) = [] \<and>
     filter is_activity (events_since w (fst (main env renv w))) = []"
  by (auto simp add: main_events main_simps main_trace_def main_outcome_def main_files_def
        load_trace_def load_outcome_def split: option.split)

theorem missing_credential_witness:
  "getenv_OPENAI_API_KEY (sample_load_env\<lparr>getenv_OPENAI_API_KEY := Some []\<rparr>) = Some [] \<and>
   exit_status
     (snd (main (sample_load_env\<lparr>getenv_OPENAI_API_KEY := Some []\<rparr>) sample_run_env
        fresh_world)) = 1 \<and>
   files
     (fst (main (sample_load_env\<lparr>getenv_OPENAI_API_KEY := Some []\<rparr>) sample_run_env
        fresh_world)) = Map.empty \<and>
   filter is_write
     (events_since fresh_world
        (fst (main (sample_load_env\<lparr>getenv_OPENAI_API_KEY := Some []\<rparr>) sample_run_env
           fresh_world))) = [] \<and>
   filter is_activity
     (events_since fresh_world
        (fst (main (sample_load_env\<lparr>getenv_OPENAI_API_KEY := Some []\<rparr>) sample_run_env
           fresh_world))) = []"
  using missing_credential_exits_1_and_writes_no_file
          [of "sample_load_env\<lparr>getenv_OPENAI_API_KEY := Some []\<rparr>" sample_run_env fresh_world]
  by (simp add: sample_load_env_def fresh_world_def initial_world_def)

text \<open>
  C5.  The diagnostic of the credential check does not go to the error stream.  At the
  sample environment with the credential unset, the script prints the diagnostic on
  standard output, prints nothing on the error stream, and exits with status 1: line 29 is
  a \<open>print\<close> with no \<open>file\<close> argument, where the handler of line 92 passes
  \<open>file=sys.stderr\<close>.
\<close>

theorem missing_credential_diagnostic_not_on_stderr:
  "printed Stderr
     (events_since fresh_world (fst (main (sample_load_env\<lparr>getenv_OPENAI_API_KEY := None\<rparr>) sample_run_env fresh_world))) = [] \<and>
   printed Stdout
     (events_since fresh_world (fst (main (sample_load_env\<lparr>getenv_OPENAI_API_KEY := None\<rparr>) sample_run_env fresh_world))) =
     [''Error: OPENAI_API_KEY environment variable not set''] \<and>
   snd (main (sample_load_env\<lparr>getenv_OPENAI_API_KEY := None\<rparr>) sample_run_env fresh_world) = SysExit 1"
  by (simp add: main_events main_simps main_trace_def main_outcome_def load_trace_def
        load_outcome_def load_raises_def sample_load_env_def fresh_world_def initial_world_def
        mkdir_exist_ok_def emit_def missing_key_msg_def)

text \<open>
  C8.  The output directory is created while the module loads, before the credential is
  looked at: a run that ends with the missing-credential error has the directory creation
  as its first event, the diagnostic after it, and leaves the directory on disk.
\<close>

theorem output_directory_created_before_credential_check:
  "import_ok env \<Longrightarrow> load_raises env w = None \<Longrightarrow>
   getenv_OPENAI_API_KEY env = None \<or> getenv_OPENAI_API_KEY env = Some [] \<Longrightarrow>
     snd (main env renv w) = SysExit 1 \<and>
     dirs (fst (main env renv w)) = insert output_dir (dirs w) \<and>
     output_dir \<in> dirs (fst (main env renv w)) \<and>
     take 1 (events_since w (fst (main env renv w))) = [Mkdir output_dir None] \<and>
     drop 1 (events_since w (fst (main env renv w))) = [Print Stdout missing_key_msg]"
  by (auto simp add: main_events main_simps main_trace_def main_outcome_def load_trace_def
        load_outcome_def load_dirs_def)

theorem output_directory_created_witness:
  "import_ok (sample_load_env\<lparr>getenv_OPENAI_API_KEY := Some []\<rparr>) \<and> load_raises (sample_load_env\<lparr>getenv_OPENAI_API_KEY := Some []\<rparr>) fresh_world = None \<and>
   getenv_OPENAI_API_KEY (sample_load_env\<lparr>getenv_OPENAI_API_KEY := Some []\<rparr>) = Some [] \<and>
   dirs fresh_world = {} \<and>
   snd (main (sample_load_env\<lparr>getenv_OPENAI_API_KEY := Some []\<rparr>) sample_run_env fresh_world) = SysExit 1 \<and>
   dirs (fst (main (sample_load_env\<lparr>getenv_OPENAI_API_KEY := Some []\<rparr>) sample_run_env fresh_world)) = {''daily-automation-output''} \<and>
   take 1 (events_since fresh_world (fst (main (sample_load_env\<lparr>getenv_OPENAI_API_KEY := Some []\<rparr>) sample_run_env fresh_world))) =
     [Mkdir ''daily-automation-output'' None]"
  using output_directory_created_before_credential_check
          [of "(sample_load_env\<lparr>getenv_OPENAI_API_KEY := Some []\<rparr>)" fresh_world sample_run_env]
  by (simp add: sample_load_env_def fresh_world_def initial_world_def load_raises_def
        mkdir_exist_ok_def emit_def output_dir_def)

text \<open>
  C7.  As stated (every run submits exactly one task) the claim fails.  Three runs submit
  none: the run with the credential unset; the run whose tool provider cannot be started;
  and the run whose console cannot encode the check mark, where the print of line 48
  raises inside the \<open>try\<close> before the service call is reached.
\<close>

theorem no_task_submitted_when_run_stops_before_the_call:
  "filter is_submission
     (events_since fresh_world (fst (main (sample_load_env\<lparr>getenv_OPENAI_API_KEY := None\<rparr>) sample_run_env fresh_world))) = [] \<and>
   filter is_submission
     (events_since fresh_world (fst (main sample_load_env (sample_run_env\<lparr>enter_fault := Some npx_missing\<rparr>) fresh_world))) = [] \<and>
   load_succeeds sample_load_env fresh_world \<and>
   enter_fault (sample_run_env\<lparr>print_fault := (\<lambda>l. if l = 48 then Some cannot_encode else None)\<rparr>) = None \<and>
   filter is_submission
     (events_since fresh_world (fst (main sample_load_env (sample_run_env\<lparr>print_fault := (\<lambda>l. if l = 48 then Some cannot_encode else None)\<rparr>) fresh_world))) = [] \<and>
   snd (main sample_load_env (sample_run_env\<lparr>print_fault := (\<lambda>l. if l = 48 then Some cannot_encode else None)\<rparr>) fresh_world) = SysExit 1"
proof -
  have a: "filter is_submission
      (events_since fresh_world (fst (main (sample_load_env\<lparr>getenv_OPENAI_API_KEY := None\<rparr>) sample_run_env fresh_world))) = []"
    by (simp add: main_events main_trace_def load_trace_def load_outcome_def load_raises_def
          sample_load_env_def fresh_world_def initial_world_def mkdir_exist_ok_def emit_def)
  have b: "filter is_submission
      (events_since fresh_world (fst (main sample_load_env (sample_run_env\<lparr>enter_fault := Some npx_missing\<rparr>) fresh_world))) = []"
    by (simp only: main_events main_simps load_passes [OF sample_load_ok])
       (simp add: run_closed_forms sample_run_env_def)
  have c: "filter is_submission
      (events_since fresh_world (fst (main sample_load_env (sample_run_env\<lparr>print_fault := (\<lambda>l. if l = 48 then Some cannot_encode else None)\<rparr>) fresh_world))) = [] \<and>
    snd (main sample_load_env (sample_run_env\<lparr>print_fault := (\<lambda>l. if l = 48 then Some cannot_encode else None)\<rparr>) fresh_world) = SysExit 1"
    by (simp only: main_events main_simps load_passes [OF sample_load_ok])
       (simp add: run_closed_forms sample_run_env_def)
  show ?thesis
    using a b c sample_load_ok by (simp add: sample_run_env_def)
qed

text \<open>
  C7, amended.  A run submits exactly one task when the module load went through, the tool
  provider started and the two progress prints of lines 48 and 72 returned, and none
  otherwise.  The one task goes to the agent with model \<open>gpt-5\<close> whose tool providers are
  exactly the one started by this run, with the fixed input text and a maximum of 20 turns.
\<close>

theorem one_task_submitted_once_call_is_reached:
  "filter is_submission (events_since w (fst (main env renv w))) =
     (if load_succeeds env w \<and> reaches_service renv
      then [RunnerRun
              \<lparr>agent_name = ''Daily Automation Agent'',
               instructions =
                 instructions_text (strftime_ymd (clock_instructions renv))
                   (strftime_compact (clock_load env)),
               model = ''gpt-5'',
               mcp_servers = [codex_mcp_server]\<rparr>
              task_input 20 (run_result renv)]
      else [])"
proof (cases "load_succeeds env w")
  case True
  then show ?thesis
    by (simp add: main_events load_passes run_submission loaded_globals_def
          split: outcome.split)
next
  case False
  then show ?thesis
    by (simp add: main_events load_fails load_trace_quiet split: outcome.split)
qed

theorem one_task_submitted_witness:
  "load_succeeds sample_load_env fresh_world \<and> reaches_service sample_run_env \<and>
   filter is_submission
     (events_since fresh_world (fst (main sample_load_env sample_run_env fresh_world))) =
     [RunnerRun
        \<lparr>agent_name = ''Daily Automation Agent'',
         instructions = instructions_text ''2026-11-04'' ''20261104_093005'',
         model = ''gpt-5'',
         mcp_servers = [codex_mcp_server]\<rparr>
        ''Execute daily automation and generate comprehensive report'' 20
        (Inr (PyStr ''report done''))]"
  using one_task_submitted_once_call_is_reached [of fresh_world sample_load_env sample_run_env]
  by (simp add: load_succeeds_def reaches_service_def sample_load_env_def sample_run_env_def
        fresh_world_def initial_world_def mkdir_exist_ok_def emit_def sample_stamp sample_day
        task_input_def)

text \<open>
  C4.  On every path of the script the tool provider that was started is shut down later in
  the log, that is, before the program ends: a run acquires the provider exactly when the
  module load went through and the start did not raise, and then the \<open>async with\<close> exit
  is run exactly once, whether the body returned, the task raised, or a print or the summary
  write raised.  The same holds for a direct call of \<open>run_daily_automation\<close>.
\<close>

theorem tool_provider_released_on_every_path:
  "released_later (events_since w (fst (main env renv w))) \<and>
   filter is_acquired (events_since w (fst (main env renv w))) =
     (if load_succeeds env w \<and> enter_fault renv = None
      then [ProviderEnter codex_mcp_server None] else []) \<and>
   filter is_released (events_since w (fst (main env renv w))) =
     (if load_succeeds env w \<and> enter_fault renv = None
      then [ProviderExit codex_mcp_server (exit_fault renv)] else []) \<and>
   released_later (events_since w' (fst (run_daily_automation g renv w')))"
proof (cases "load_succeeds env w")
  case True
  then show ?thesis
    by (simp add: main_events run_events load_passes run_released run_acquired run_exits
          released_later_append split: outcome.split)
next
  case False
  then show ?thesis
    by (simp add: main_events run_events load_fails load_trace_quiet run_released
          released_later_append split: outcome.split)
qed

theorem tool_provider_released_witness:
  "load_succeeds sample_load_env fresh_world \<and>
   run_result (sample_run_env\<lparr>run_result := Inl (PyException ''MaxTurnsExceeded'' ''Max turns (20) exceeded'')\<rparr>) =
     Inl (PyException ''MaxTurnsExceeded'' ''Max turns (20) exceeded'') \<and>
   released_later
     (events_since fresh_world
        (fst (main sample_load_env
           (sample_run_env\<lparr>run_result := Inl (PyException ''MaxTurnsExceeded'' ''Max turns (20) exceeded'')\<rparr>)
           fresh_world))) \<and>
   filter is_acquired
     (events_since fresh_world
        (fst (main sample_load_env
           (sample_run_env\<lparr>run_result := Inl (PyException ''MaxTurnsExceeded'' ''Max turns (20) exceeded'')\<rparr>)
           fresh_world))) = [ProviderEnter codex_mcp_server None] \<and>
   filter is_released
     (events_since fresh_world
        (fst (main sample_load_env
           (sample_run_env\<lparr>run_result := Inl (PyException ''MaxTurnsExceeded'' ''Max turns (20) exceeded'')\<rparr>)
           fresh_world))) = [ProviderExit codex_mcp_server None]"
  using tool_provider_released_on_every_path
          [of fresh_world sample_load_env
             "sample_run_env\<lparr>run_result := Inl (PyException ''MaxTurnsExceeded'' ''Max turns (20) exceeded'')\<rparr>"]
  by (simp add: load_succeeds_def sample_load_env_def sample_run_env_def fresh_world_def
        initial_world_def mkdir_exist_ok_def emit_def)

text \<open>
  C1.  As stated (whenever the service call returned, a summary file exists and holds the
  final output byte for byte) the claim fails, in three ways.  When the service returns a
  text and the summary write then raises, no summary file is left and the run ends through
  the handler with status 1.  When the console cannot encode the final output, the print of
  line 81 raises inside the \<open>try\<close> before the write is reached, with the same end.  And on
  a platform whose line separator is carriage return and line feed, the summary of a
  two-line output holds that separator on disk where the output has a line feed.
\<close>

theorem summary_missing_or_not_byte_identical:
  "run_result (sample_run_env\<lparr>summary_fault := Some (FailBeforeOpen permission_denied)\<rparr>) = Inr (PyStr ''report done'') \<and>
   files (fst (main sample_load_env (sample_run_env\<lparr>summary_fault := Some (FailBeforeOpen permission_denied)\<rparr>) fresh_world))
     ''daily-automation-output/summary-20261104_093005.txt'' = None \<and>
   filter is_summary_path
     (touched (events_since fresh_world (fst (main sample_load_env (sample_run_env\<lparr>summary_fault := Some (FailBeforeOpen permission_denied)\<rparr>) fresh_world)))) = [] \<and>
   snd (main sample_load_env (sample_run_env\<lparr>summary_fault := Some (FailBeforeOpen permission_denied)\<rparr>) fresh_world) = SysExit 1 \<and>
   run_result (sample_run_env\<lparr>print_fault := (\<lambda>l. if l = 81 then Some cannot_encode else None)\<rparr>) = Inr (PyStr ''report done'') \<and>
   summary_fault (sample_run_env\<lparr>print_fault := (\<lambda>l. if l = 81 then Some cannot_encode else None)\<rparr>) = None \<and>
   files (fst (main sample_load_env (sample_run_env\<lparr>print_fault := (\<lambda>l. if l = 81 then Some cannot_encode else None)\<rparr>) fresh_world))
     ''daily-automation-output/summary-20261104_093005.txt'' = None \<and>
   filter is_summary_path
     (touched (events_since fresh_world (fst (main sample_load_env (sample_run_env\<lparr>print_fault := (\<lambda>l. if l = 81 then Some cannot_encode else None)\<rparr>) fresh_world)))) = [] \<and>
   snd (main sample_load_env (sample_run_env\<lparr>print_fault := (\<lambda>l. if l = 81 then Some cannot_encode else None)\<rparr>) fresh_world) = SysExit 1 \<and>
   snd (main sample_load_env (sample_run_env\<lparr>run_result := Inr (PyStr ''line one\<newline>line two'')\<rparr>) fresh_world) = Returned () \<and>
   bytes_on_disk windows_utf8
     (fst (main sample_load_env (sample_run_env\<lparr>run_result := Inr (PyStr ''line one\<newline>line two'')\<rparr>) fresh_world))
     ''daily-automation-output/summary-20261104_093005.txt'' =
     Some (''line one'' @ [CHR 0x0D, CHR 0x0A] @ ''line two'') \<and>
   bytes_on_disk windows_utf8
     (fst (main sample_load_env (sample_run_env\<lparr>run_result := Inr (PyStr ''line one\<newline>line two'')\<rparr>) fresh_world))
     ''daily-automation-output/summary-20261104_093005.txt'' \<noteq>
     Some ''line one\<newline>line two''"
proof -
  have a: "files (fst (main sample_load_env (sample_run_env\<lparr>summary_fault := Some (FailBeforeOpen permission_denied)\<rparr>) fresh_world))
      ''daily-automation-output/summary-20261104_093005.txt'' = None \<and>
    filter is_summary_path
      (touched (events_since fresh_world (fst (main sample_load_env (sample_run_env\<lparr>summary_fault := Some (FailBeforeOpen permission_denied)\<rparr>) fresh_world)))) = [] \<and>
    snd (main sample_load_env (sample_run_env\<lparr>summary_fault := Some (FailBeforeOpen permission_denied)\<rparr>) fresh_world) = SysExit 1"
    by (simp only: main_events main_simps load_passes [OF sample_load_ok])
       (simp add: run_closed_forms sample_run_env_def fresh_world_def initial_world_def
          sample_paths touched_append is_summary_path_def path_join_def output_dir_def Let_def)
  have b: "files (fst (main sample_load_env (sample_run_env\<lparr>print_fault := (\<lambda>l. if l = 81 then Some cannot_encode else None)\<rparr>) fresh_world))
      ''daily-automation-output/summary-20261104_093005.txt'' = None \<and>
    filter is_summary_path
      (touched (events_since fresh_world (fst (main sample_load_env (sample_run_env\<lparr>print_fault := (\<lambda>l. if l = 81 then Some cannot_encode else None)\<rparr>) fresh_world)))) = [] \<and>
    snd (main sample_load_env (sample_run_env\<lparr>print_fault := (\<lambda>l. if l = 81 then Some cannot_encode else None)\<rparr>) fresh_world) = SysExit 1"
    by (simp only: main_events main_simps load_passes [OF sample_load_ok])
       (simp add: run_closed_forms sample_run_env_def fresh_world_def initial_world_def
          sample_paths touched_append is_summary_path_def path_join_def output_dir_def Let_def)
  have c: "snd (main sample_load_env (sample_run_env\<lparr>run_result := Inr (PyStr ''line one\<newline>line two'')\<rparr>) fresh_world) = Returned () \<and>
    bytes_on_disk windows_utf8
      (fst (main sample_load_env (sample_run_env\<lparr>run_result := Inr (PyStr ''line one\<newline>line two'')\<rparr>) fresh_world))
      ''daily-automation-output/summary-20261104_093005.txt'' =
      Some (''line one'' @ [CHR 0x0D, CHR 0x0A] @ ''line two'')"
    by (simp only: bytes_on_disk_def main_events main_simps load_passes [OF sample_load_ok])
       (simp add: run_closed_forms sample_run_env_def fresh_world_def initial_world_def
          sample_paths text_bytes_def windows_utf8_def Let_def)
  show ?thesis
    using a b c by (simp add: sample_run_env_def)
qed

text \<open>
  C1, amended.  When the module load went through, the run reached the summary write (the
  tool provider started and the prints of lines 48, 72, 80 and 81 returned), the service
  call returned a text and the summary write did not raise, the run writes exactly one
  summary file: it is named \<open>summary-<DATE_STR>.txt\<close> under the output directory, with the
  time stamp taken at module load, the write is the first write of the run and carries the
  final output unchanged, and at the end of the run the file holds exactly that text.  On
  disk the file holds the platform's bytes for that text: each line feed replaced by the
  line separator, in the default encoding.  They are the final output byte for byte on a
  platform whose line separator is the line feed and whose encoding leaves the output as it
  is.
\<close>

theorem summary_file_holds_final_output:
  assumes "load_succeeds env w" and "reaches_summary_write renv"
    and "run_result renv = Inr (PyStr out)" and "summary_fault renv = None"
  shows
    "filter is_summary_path (touched (events_since w (fst (main env renv w)))) =
       [''daily-automation-output/summary-'' @ strftime_compact (clock_load env) @ ''.txt''] \<and>
     take 1 (filter is_write (events_since w (fst (main env renv w)))) =
       [WriteText
          (''daily-automation-output/summary-'' @ strftime_compact (clock_load env) @ ''.txt'')
          (PyStr out) None] \<and>
     files (fst (main env renv w))
       (''daily-automation-output/summary-'' @ strftime_compact (clock_load env) @ ''.txt'') =
       Some out \<and>
     bytes_on_disk pf (fst (main env renv w))
       (''daily-automation-output/summary-'' @ strftime_compact (clock_load env) @ ''.txt'') =
       Some (text_bytes pf out) \<and>
     (linesep pf = [CHR 0x0A] \<and> encode pf out = out \<longrightarrow>
        bytes_on_disk pf (fst (main env renv w))
          (''daily-automation-output/summary-'' @ strftime_compact (clock_load env) @ ''.txt'') =
          Some out)"
proof -
  let ?g = "loaded_globals env"
  have paths: "is_summary_path (summary_file ?g)" "\<not> is_summary_path (error_file ?g)"
    "error_file ?g \<noteq> summary_file ?g"
    by (simp_all add: output_paths loaded_output_dir)
  have reach: "enter_fault renv = None" "print_fault renv 48 = None"
    "print_fault renv 72 = None" "print_fault renv 80 = None" "print_fault renv 81 = None"
    using assms(2) by (simp_all add: reaches_summary_write_def reaches_service_def)
  have tr: "filter is_summary_path (touched (run_trace ?g renv)) = [summary_file ?g]"
    using reach assms(3,4) paths
    by (simp add: run_trace_def body_trace_def after_trace_def handler_trace_def
          write_event_def write_raises_def touched_WriteText touched_append
          split: option.split write_fault.split)
  have wr: "take 1 (filter is_write (run_trace ?g renv)) =
      [WriteText (summary_file ?g) (PyStr out) None]"
    using reach assms(3,4)
    by (simp add: run_trace_def body_trace_def after_trace_def write_event_def)
  have fl: "run_files ?g renv (files w) (summary_file ?g) = Some out"
    using reach assms(3,4) paths
    by (simp add: run_files_def body_files_def after_files_def write_files_def Let_def
          split: option.split write_fault.split)
  have main:
    "filter is_summary_path (touched (events_since w (fst (main env renv w)))) =
       [summary_file ?g] \<and>
     take 1 (filter is_write (events_since w (fst (main env renv w)))) =
       [WriteText (summary_file ?g) (PyStr out) None] \<and>
     files (fst (main env renv w)) (summary_file ?g) = Some out"
    using tr wr fl
    by (simp add: main_events main_simps load_passes [OF assms(1)] touched_append
          split: outcome.split)
  then have bytes:
    "bytes_on_disk pf (fst (main env renv w)) (summary_file ?g) = Some (text_bytes pf out)"
    by (simp add: bytes_on_disk_def)
  have posix: "linesep pf = [CHR 0x0A] \<Longrightarrow> encode pf out = out \<Longrightarrow> text_bytes pf out = out"
    by (simp add: text_bytes_def translate_newlines_posix)
  from main bytes posix show ?thesis
    by (simp add: loaded_paths)
qed

theorem summary_file_witness:
  "load_succeeds sample_load_env fresh_world \<and> reaches_summary_write sample_run_env \<and>
   run_result sample_run_env = Inr (PyStr ''report done'') \<and>
   summary_fault sample_run_env = None \<and>
   linesep posix_utf8 = [CHR 0x0A] \<and> encode posix_utf8 ''report done'' = ''report done'' \<and>
   filter is_summary_path
     (touched (events_since fresh_world (fst (main sample_load_env sample_run_env fresh_world)))) =
     [''daily-automation-output/summary-20261104_093005.txt''] \<and>
   files (fst (main sample_load_env sample_run_env fresh_world))
     ''daily-automation-output/summary-20261104_093005.txt'' = Some ''report done'' \<and>
   bytes_on_disk posix_utf8 (fst (main sample_load_env sample_run_env fresh_world))
     ''daily-automation-output/summary-20261104_093005.txt'' = Some ''report done''"
  using summary_file_holds_final_output
          [of sample_load_env fresh_world sample_run_env "''report done''" posix_utf8]
        sample_load_ok
  by (simp add: sample_run_env_def sample_load_env_def sample_stamp posix_utf8_simps
        text_bytes_def translate_newlines_posix reaches_summary_write_def
        reaches_service_def)

text \<open>
  C3.  As stated (exactly one error file for every exception of the start or the service
  call) the claim fails: when the tool provider cannot be started and the write of the
  error file raises too, no file is written; the run ends with status 1 through the
  uncaught exception of the write.
\<close>

theorem no_error_file_when_error_write_raises:
  "enter_fault (sample_run_env\<lparr>enter_fault := Some npx_missing, error_fault := Some (FailBeforeOpen permission_denied)\<rparr>) = Some npx_missing \<and>
   touched (events_since fresh_world (fst (main sample_load_env (sample_run_env\<lparr>enter_fault := Some npx_missing, error_fault := Some (FailBeforeOpen permission_denied)\<rparr>) fresh_world))) = [] \<and>
   files (fst (main sample_load_env (sample_run_env\<lparr>enter_fault := Some npx_missing, error_fault := Some (FailBeforeOpen permission_denied)\<rparr>) fresh_world)) = Map.empty \<and>
   snd (main sample_load_env (sample_run_env\<lparr>enter_fault := Some npx_missing, error_fault := Some (FailBeforeOpen permission_denied)\<rparr>) fresh_world) = Uncaught permission_denied"
  by (simp only: main_events main_simps load_passes [OF sample_load_ok])
     (simp add: run_closed_forms sample_run_env_def fresh_world_def initial_world_def Let_def)

text \<open>
  C3, amended.  When the start of the tool provider raises \<open>e\<close>, or the run reaches the
  service call and the call raises \<open>e\<close>, the
  handler receives an exception \<open>c\<close> (it is \<open>e\<close>, unless the shutdown of the tool provider
  raised in turn, which replaces it), prints \<open>Error in daily automation: str(c)\<close> on the
  error stream, and the run ends with status 1; the only write of the run is that of the
  error file \<open>error-<DATE_STR>.log\<close>.  When that write does not raise, the run exits through
  \<open>sys.exit(1)\<close>, the error file is the one file written, and it holds a non-empty text
  that contains the message and ends with the raw text \<open>str(c)\<close>.
\<close>

theorem error_file_written_for_start_or_service_exception:
  assumes "load_succeeds env w"
    and "enter_fault renv = Some e \<or> (reaches_service renv \<and> run_result renv = Inl e)"
    and "c = (if enter_fault renv = None
              then (case exit_fault renv of None \<Rightarrow> e | Some e2 \<Rightarrow> e2) else e)"
  shows
    "exit_status (snd (main env renv w)) = 1 \<and>
     printed Stderr (events_since w (fst (main env renv w))) = [error_msg c] \<and>
     filter is_write (events_since w (fst (main env renv w))) =
       [WriteText
          (''daily-automation-output/error-'' @ strftime_compact (clock_load env) @ ''.log'')
          (PyStr (error_content (clock_error renv) c)) (error_fault renv)] \<and>
     (error_fault renv = None \<longrightarrow>
        snd (main env renv w) = SysExit 1 \<and>
        touched (events_since w (fst (main env renv w))) =
          [''daily-automation-output/error-'' @ strftime_compact (clock_load env) @ ''.log''] \<and>
        files (fst (main env renv w))
          (''daily-automation-output/error-'' @ strftime_compact (clock_load env) @ ''.log'') =
          Some (error_content (clock_error renv) c)) \<and>
     error_content (clock_error renv) c \<noteq> [] \<and>
     sublist (error_msg c) (error_content (clock_error renv) c) \<and>
     suffix (exc_str c) (error_content (clock_error renv) c)"
proof -
  let ?g = "loaded_globals env"
  have caught: "run_caught renv = Some c"
    using assms(2,3)
    by (auto simp add: run_caught_def body_result_def reaches_service_def split: option.split)
  have out: "run_outcome renv = handler_outcome renv"
    using caught by (simp add: run_outcome_def)
  have pr: "printed Stderr (run_trace ?g renv) = [error_msg c]"
    using assms(2) caught
    by (auto simp add: run_trace_def body_trace_def handler_trace_def printed_append
          reaches_service_def)
  have wr: "filter is_write (run_trace ?g renv) =
      [WriteText (error_file ?g) (PyStr (error_content (clock_error renv) c)) (error_fault renv)]"
    using assms(2) caught
    by (auto simp add: run_trace_def body_trace_def handler_trace_def reaches_service_def)
  have tc: "error_fault renv = None \<Longrightarrow> touched (run_trace ?g renv) = [error_file ?g]"
    using assms(2) caught
    by (auto simp add: run_trace_def body_trace_def handler_trace_def touched_append
          reaches_service_def)
  have fl: "error_fault renv = None \<Longrightarrow>
      run_files ?g renv (files w) (error_file ?g) = Some (error_content (clock_error renv) c)"
    using assms(2) caught
    by (auto simp add: run_files_def body_files_def write_files_def Let_def
          reaches_service_def)
  have ex: "exit_status (main_outcome env renv w) = 1"
    using out
    by (simp add: load_passes [OF assms(1)] handler_outcome_def
          split: option.split write_fault.split)
  have so: "error_fault renv = None \<Longrightarrow> main_outcome env renv w = SysExit 1"
    using out by (simp add: load_passes [OF assms(1)] handler_outcome_def)
  have main:
    "exit_status (snd (main env renv w)) = 1 \<and>
     printed Stderr (events_since w (fst (main env renv w))) = [error_msg c] \<and>
     filter is_write (events_since w (fst (main env renv w))) =
       [WriteText (error_file ?g) (PyStr (error_content (clock_error renv) c))
          (error_fault renv)] \<and>
     (error_fault renv = None \<longrightarrow>
        snd (main env renv w) = SysExit 1 \<and>
        touched (events_since w (fst (main env renv w))) = [error_file ?g] \<and>
        files (fst (main env renv w)) (error_file ?g) =
          Some (error_content (clock_error renv) c)) \<and>
     error_content (clock_error renv) c \<noteq> [] \<and>
     sublist (error_msg c) (error_content (clock_error renv) c) \<and>
     suffix (exc_str c) (error_content (clock_error renv) c)"
    using pr wr tc fl ex so
    by (simp add: main_events main_simps load_passes(1,2) [OF assms(1)] touched_append
          printed_append error_content_contains split: outcome.split)
  then show ?thesis
    by (simp add: loaded_paths)
qed

theorem error_file_witness:
  "load_succeeds sample_load_env fresh_world \<and>
   enter_fault (sample_run_env\<lparr>enter_fault := Some npx_missing\<rparr>) = Some npx_missing \<and>
   error_fault (sample_run_env\<lparr>enter_fault := Some npx_missing\<rparr>) = None \<and>
   snd (main sample_load_env (sample_run_env\<lparr>enter_fault := Some npx_missing\<rparr>) fresh_world) = SysExit 1 \<and>
   printed Stderr (events_since fresh_world (fst (main sample_load_env (sample_run_env\<lparr>enter_fault := Some npx_missing\<rparr>) fresh_world))) =
     [''Error in daily automation: [Errno 2] No such file or directory: npx''] \<and>
   touched (events_since fresh_world (fst (main sample_load_env (sample_run_env\<lparr>enter_fault := Some npx_missing\<rparr>) fresh_world))) =
     [''daily-automation-output/error-20261104_093005.log''] \<and>
   files (fst (main sample_load_env (sample_run_env\<lparr>enter_fault := Some npx_missing\<rparr>) fresh_world))
     ''daily-automation-output/error-20261104_093005.log'' =
     Some (''2026-11-04 09:30:05: Error in daily automation: '' @
           ''[Errno 2] No such file or directory: npx\<newline>'' @
           ''[Errno 2] No such file or directory: npx'')"
  using error_file_written_for_start_or_service_exception
          [of sample_load_env fresh_world "(sample_run_env\<lparr>enter_fault := Some npx_missing\<rparr>)" npx_missing npx_missing] sample_load_ok
  by (simp add: sample_run_env_def sample_load_env_def sample_stamp sample_clock
        error_content_def error_msg_def npx_missing_def)

text \<open>
  C9.  As stated (an error file is written whenever the summary write raises) the claim
  fails: when the output directory refuses both writes, the summary write raises, the
  handler's own write raises too, and the run ends with no file at all.
\<close>

theorem no_error_file_when_both_writes_raise:
  "run_result (sample_run_env\<lparr>summary_fault := Some (FailBeforeOpen permission_denied), error_fault := Some (FailBeforeOpen permission_denied)\<rparr>) = Inr (PyStr ''report done'') \<and>
   write_raises (PyStr ''report done'') (summary_fault (sample_run_env\<lparr>summary_fault := Some (FailBeforeOpen permission_denied), error_fault := Some (FailBeforeOpen permission_denied)\<rparr>)) = Some permission_denied \<and>
   touched (events_since fresh_world (fst (main sample_load_env (sample_run_env\<lparr>summary_fault := Some (FailBeforeOpen permission_denied), error_fault := Some (FailBeforeOpen permission_denied)\<rparr>) fresh_world))) = [] \<and>
   files (fst (main sample_load_env (sample_run_env\<lparr>summary_fault := Some (FailBeforeOpen permission_denied), error_fault := Some (FailBeforeOpen permission_denied)\<rparr>) fresh_world)) = Map.empty \<and>
   snd (main sample_load_env (sample_run_env\<lparr>summary_fault := Some (FailBeforeOpen permission_denied), error_fault := Some (FailBeforeOpen permission_denied)\<rparr>) fresh_world) = Uncaught permission_denied"
  by (simp only: main_events main_simps load_passes [OF sample_load_ok])
     (simp add: run_closed_forms sample_run_env_def fresh_world_def initial_world_def Let_def)

text \<open>
  C9, amended.  When the run reaches the summary write (the tool provider started, the
  service call returned, the prints before the write returned) and the write raises \<open>e\<close>,
  the tool provider is shut down and the handler receives \<open>c\<close> (\<open>e\<close>, or the exception of the
  shutdown that replaced it): the run prints the error on the error stream and ends with
  status 1, and its writes are the failed summary write followed by the write of the error
  file.  When the write of the error file does not raise, the run exits through
  \<open>sys.exit(1)\<close> and the error file holds the error text.  A summary file is left exactly
  when the summary write failed after it had opened the file; when it failed before (a
  final output that is not a text, or a failure to open), the summary path is as it was.
\<close>

theorem summary_write_failure_goes_to_handler:
  assumes "load_succeeds env w" and "reaches_summary_write renv"
    and "run_result renv = Inr v" and "write_raises v (summary_fault renv) = Some e"
    and "c = (case exit_fault renv of None \<Rightarrow> e | Some e2 \<Rightarrow> e2)"
  shows
    "exit_status (snd (main env renv w)) = 1 \<and>
     printed Stderr (events_since w (fst (main env renv w))) = [error_msg c] \<and>
     filter is_write (events_since w (fst (main env renv w))) =
       [write_event
          (''daily-automation-output/summary-'' @ strftime_compact (clock_load env) @ ''.txt'')
          v (summary_fault renv),
        WriteText
          (''daily-automation-output/error-'' @ strftime_compact (clock_load env) @ ''.log'')
          (PyStr (error_content (clock_error renv) c)) (error_fault renv)] \<and>
     (error_fault renv = None \<longrightarrow>
        snd (main env renv w) = SysExit 1 \<and>
        filter is_error_path (touched (events_since w (fst (main env renv w)))) =
          [''daily-automation-output/error-'' @ strftime_compact (clock_load env) @ ''.log''] \<and>
        files (fst (main env renv w))
          (''daily-automation-output/error-'' @ strftime_compact (clock_load env) @ ''.log'') =
          Some (error_content (clock_error renv) c)) \<and>
     filter is_summary_path (touched (events_since w (fst (main env renv w)))) =
       (if leaves_file v (summary_fault renv)
        then [''daily-automation-output/summary-'' @ strftime_compact (clock_load env) @ ''.txt'']
        else []) \<and>
     (\<not> leaves_file v (summary_fault renv) \<longrightarrow>
        files (fst (main env renv w))
          (''daily-automation-output/summary-'' @ strftime_compact (clock_load env) @ ''.txt'') =
        files w
          (''daily-automation-output/summary-'' @ strftime_compact (clock_load env) @ ''.txt''))"
proof -
  let ?g = "loaded_globals env"
  have paths: "is_summary_path (summary_file ?g)" "\<not> is_summary_path (error_file ?g)"
    "is_error_path (error_file ?g)" "\<not> is_error_path (summary_file ?g)"
    "error_file ?g \<noteq> summary_file ?g" "summary_file ?g \<noteq> error_file ?g"
    by (simp_all add: output_paths loaded_output_dir)
  have reach: "enter_fault renv = None" "print_fault renv 48 = None"
    "print_fault renv 72 = None" "print_fault renv 80 = None" "print_fault renv 81 = None"
    using assms(2) by (simp_all add: reaches_summary_write_def reaches_service_def)
  have body: "body_result renv = Inl e"
    using reach assms(3,4) by (simp add: body_result_def after_result_def)
  have caught: "run_caught renv = Some c"
    using reach assms(5) body by (simp add: run_caught_def split: option.split)
  have out: "run_outcome renv = handler_outcome renv"
    using caught by (simp add: run_outcome_def)
  have tr: "run_trace ?g renv =
      [Print Stdout (''Starting daily automation at '' @ str_datetime (clock_start renv)),
       ProviderEnter codex_mcp_server None,
       Print Stdout (check_mark @ '' Codex MCP server started''),
       Print Stdout (gear_mark @ ''  Running daily automation tasks...''),
       RunnerRun
         \<lparr>agent_name = ''Daily Automation Agent'',
          instructions =
            instructions_text (strftime_ymd (clock_instructions renv)) (DATE_STR ?g),
          model = ''gpt-5'', mcp_servers = [codex_mcp_server]\<rparr>
         task_input 20 (run_result renv),
       Print Stdout (check_mark @ '' Daily automation completed''),
       Print Stdout (''\<newline>Final Output:\<newline>'' @ py_str v),
       write_event (summary_file ?g) v (summary_fault renv),
       ProviderExit codex_mcp_server (exit_fault renv),
       Print Stderr (error_msg c),
       WriteText (error_file ?g) (PyStr (error_content (clock_error renv) c))
         (error_fault renv)]"
    using reach assms(3,4) caught
    by (simp add: run_trace_def body_trace_def after_trace_def handler_trace_def)
  have ex: "exit_status (main_outcome env renv w) = 1"
    using out
    by (simp add: load_passes [OF assms(1)] handler_outcome_def
          split: option.split write_fault.split)
  have so: "error_fault renv = None \<Longrightarrow> main_outcome env renv w = SysExit 1"
    using out by (simp add: load_passes [OF assms(1)] handler_outcome_def)
  have fe: "error_fault renv = None \<Longrightarrow>
      run_files ?g renv (files w) (error_file ?g) = Some (error_content (clock_error renv) c)"
    using reach assms(3) caught
    by (simp add: run_files_def Let_def write_files_def)
  have fs: "\<not> leaves_file v (summary_fault renv) \<Longrightarrow>
      run_files ?g renv (files w) (summary_file ?g) = files w (summary_file ?g)"
    using reach assms(3) caught paths
    by (simp add: run_files_def Let_def body_files_def after_files_def write_files_kept
          write_files_other)
  have main:
    "exit_status (snd (main env renv w)) = 1 \<and>
     printed Stderr (events_since w (fst (main env renv w))) = [error_msg c] \<and>
     filter is_write (events_since w (fst (main env renv w))) =
       [write_event (summary_file ?g) v (summary_fault renv),
        WriteText (error_file ?g) (PyStr (error_content (clock_error renv) c))
          (error_fault renv)] \<and>
     (error_fault renv = None \<longrightarrow>
        snd (main env renv w) = SysExit 1 \<and>
        filter is_error_path (touched (events_since w (fst (main env renv w)))) =
          [error_file ?g] \<and>
        files (fst (main env renv w)) (error_file ?g) =
          Some (error_content (clock_error renv) c)) \<and>
     filter is_summary_path (touched (events_since w (fst (main env renv w)))) =
       (if leaves_file v (summary_fault renv) then [summary_file ?g] else []) \<and>
     (\<not> leaves_file v (summary_fault renv) \<longrightarrow>
        files (fst (main env renv w)) (summary_file ?g) = files w (summary_file ?g))"
    using ex so fe fs paths
    by (simp add: main_events main_simps load_passes(1,2) [OF assms(1)] tr touched_append
          touched_write_event touched_WriteText is_write_write_event printed_write_event
          split: outcome.split option.split write_fault.split)
  then show ?thesis
    by (simp add: loaded_paths)
qed

theorem summary_write_failure_witness:
  "load_succeeds sample_load_env fresh_world \<and> reaches_summary_write (sample_run_env\<lparr>run_result := Inr (PyOther ''NoneType'' ''None'')\<rparr>) \<and>
   run_result (sample_run_env\<lparr>run_result := Inr (PyOther ''NoneType'' ''None'')\<rparr>) = Inr (PyOther ''NoneType'' ''None'') \<and>
   write_raises (PyOther ''NoneType'' ''None'') (summary_fault (sample_run_env\<lparr>run_result := Inr (PyOther ''NoneType'' ''None'')\<rparr>)) =
     Some (PyException ''TypeError'' ''data must be str, not NoneType'') \<and>
   error_fault (sample_run_env\<lparr>run_result := Inr (PyOther ''NoneType'' ''None'')\<rparr>) = None \<and>
   snd (main sample_load_env (sample_run_env\<lparr>run_result := Inr (PyOther ''NoneType'' ''None'')\<rparr>) fresh_world) = SysExit 1 \<and>
   printed Stderr (events_since fresh_world (fst (main sample_load_env (sample_run_env\<lparr>run_result := Inr (PyOther ''NoneType'' ''None'')\<rparr>) fresh_world))) =
     [''Error in daily automation: data must be str, not NoneType''] \<and>
   filter is_summary_path
     (touched (events_since fresh_world (fst (main sample_load_env (sample_run_env\<lparr>run_result := Inr (PyOther ''NoneType'' ''None'')\<rparr>) fresh_world)))) = [] \<and>
   files (fst (main sample_load_env (sample_run_env\<lparr>run_result := Inr (PyOther ''NoneType'' ''None'')\<rparr>) fresh_world))
     ''daily-automation-output/error-20261104_093005.log'' =
     Some (''2026-11-04 09:30:05: Error in daily automation: '' @
           ''data must be str, not NoneType\<newline>data must be str, not NoneType'')"
  using summary_write_failure_goes_to_handler
          [of sample_load_env fresh_world "(sample_run_env\<lparr>run_result := Inr (PyOther ''NoneType'' ''None'')\<rparr>)" "PyOther ''NoneType'' ''None''"
              "PyException ''TypeError'' ''data must be str, not NoneType''"
              "PyException ''TypeError'' ''data must be str, not NoneType''"]
        sample_load_ok
  by (simp add: sample_run_env_def sample_load_env_def sample_stamp sample_clock
        error_content_def error_msg_def write_raises_def reaches_summary_write_def
        reaches_service_def)

text \<open>
  C6.  As stated (two runs in one process use distinct time stamps and no run overwrites a
  file of an earlier run) the claim fails: \<open>DATE_STR\<close> is computed once, when the module
  is loaded, so a second call of \<open>run_daily_automation\<close> in the same process, started
  hours later, writes to the path of the first and replaces its summary.
\<close>

theorem second_run_in_process_overwrites_summary:
  "snd (module_init sample_load_env fresh_world) = Returned (loaded_globals sample_load_env) \<and>
   files
     (fst (run_daily_automation (loaded_globals sample_load_env) sample_run_env
        (fst (module_init sample_load_env fresh_world))))
     ''daily-automation-output/summary-20261104_093005.txt'' = Some ''report done'' \<and>
   files
     (fst (two_sequential_runs (loaded_globals sample_load_env) sample_run_env
        (sample_run_env\<lparr>clock_start := sample_later_time,
           clock_instructions := sample_later_time,
           run_result := Inr (PyStr ''second report'')\<rparr>)
        (fst (module_init sample_load_env fresh_world))))
     ''daily-automation-output/summary-20261104_093005.txt'' = Some ''second report'' \<and>
   touched
     (events_since (fst (module_init sample_load_env fresh_world))
        (fst (two_sequential_runs (loaded_globals sample_load_env) sample_run_env
           (sample_run_env\<lparr>clock_start := sample_later_time,
              clock_instructions := sample_later_time,
              run_result := Inr (PyStr ''second report'')\<rparr>)
           (fst (module_init sample_load_env fresh_world))))) =
     [''daily-automation-output/summary-20261104_093005.txt'',
      ''daily-automation-output/summary-20261104_093005.txt'']"
  by (simp only: events_since_def module_init_simps run_daily_automation_simps
        two_sequential_runs_simps [OF sample_run_returns] load_succeeds_simps [OF sample_load_ok])
     (simp add: run_closed_forms sample_run_env_def sample_paths touched_append Let_def)

text \<open>
  C6, amended.  Every run names the files it writes with \<open>DATE_STR\<close>, the time stamp taken
  once when the module is loaded, to the second: it touches no file but
  \<open>summary-<DATE_STR>.txt\<close> and \<open>error-<DATE_STR>.log\<close>.  It leaves the output files of any
  run with another time stamp as they were, and it never reads a file back: its outcome
  and its log do not depend on the content of the files it finds.
\<close>

theorem outputs_named_by_load_time_stamp:
  "set (touched (events_since w (fst (main env renv w)))) \<subseteq>
     {summary_file (loaded_globals env), error_file (loaded_globals env)} \<and>
   summary_file (loaded_globals env) =
     ''daily-automation-output/summary-'' @ strftime_compact (clock_load env) @ ''.txt'' \<and>
   error_file (loaded_globals env) =
     ''daily-automation-output/error-'' @ strftime_compact (clock_load env) @ ''.log'' \<and>
   (strftime_compact (clock_load env') \<noteq> strftime_compact (clock_load env) \<longrightarrow>
      files (fst (main env renv w)) (summary_file (loaded_globals env')) =
        files w (summary_file (loaded_globals env')) \<and>
      files (fst (main env renv w)) (error_file (loaded_globals env')) =
        files w (error_file (loaded_globals env'))) \<and>
   (dom fs = dom (files w) \<longrightarrow>
      snd (main env renv (w\<lparr>files := fs\<rparr>)) = snd (main env renv w) \<and>
      events_since (w\<lparr>files := fs\<rparr>) (fst (main env renv (w\<lparr>files := fs\<rparr>))) =
        events_since w (fst (main env renv w)))"
proof -
  let ?g = "loaded_globals env"
  have t: "set (touched (main_trace env renv w)) \<subseteq> {summary_file ?g, error_file ?g}"
  proof (cases "load_succeeds env w")
    case True
    then show ?thesis
      using run_touched [of ?g renv]
      by (simp add: load_passes touched_append split: outcome.split)
  next
    case False
    then show ?thesis
      by (simp add: load_fails touched_append load_trace_quiet split: outcome.split)
  qed
  have f: "strftime_compact (clock_load env') \<noteq> strftime_compact (clock_load env) \<Longrightarrow>
      main_files env renv w (summary_file (loaded_globals env')) =
        files w (summary_file (loaded_globals env')) \<and>
      main_files env renv w (error_file (loaded_globals env')) =
        files w (error_file (loaded_globals env'))"
  proof (cases "load_succeeds env w")
    case True
    assume "strftime_compact (clock_load env') \<noteq> strftime_compact (clock_load env)"
    from stamps_differ [OF this] True show ?thesis
      by (simp add: load_passes run_files_other)
  next
    case False
    then show ?thesis
      by (simp add: load_fails)
  qed
  have r: "dom fs = dom (files w) \<Longrightarrow>
      main_outcome env renv (w\<lparr>files := fs\<rparr>) = main_outcome env renv w \<and>
      main_trace env renv (w\<lparr>files := fs\<rparr>) = main_trace env renv w"
    by (simp add: main_outcome_def main_trace_def load_outcome_def load_trace_def
          load_raises_files)
  show ?thesis
    using t f r by (simp add: main_events main_simps loaded_paths)
qed

theorem outputs_named_witness:
  "strftime_compact (clock_load (sample_load_env\<lparr>clock_load := sample_later_time\<rparr>)) \<noteq> strftime_compact (clock_load sample_load_env) \<and>
   dom (files used_world) = dom (files used_world) \<and>
   set (touched (events_since used_world (fst (main sample_load_env sample_run_env used_world))))
     \<subseteq> {''daily-automation-output/summary-20261104_093005.txt'',
          ''daily-automation-output/error-20261104_093005.log''} \<and>
   files (fst (main sample_load_env sample_run_env used_world))
     ''daily-automation-output/summary-20261104_154505.txt'' = Some ''old report''"
  using outputs_named_by_load_time_stamp
          [of used_world sample_load_env sample_run_env "(sample_load_env\<lparr>clock_load := sample_later_time\<rparr>)" "files used_world"]
  by (simp add: loaded_paths sample_load_stamp sample_later_stamp used_world_def
        initial_world_def)

end
